theory Spec2Isabelle
  imports Main "HOL-Library.Word"
begin

unbundle bit_operations_syntax

section \<open>Platform constants and C library functions\<close>

text \<open>
  The two programs, \<^verbatim>\<open>krun-relay.c\<close> and \<^verbatim>\<open>fakeuid.c\<close>, are written against the
  Linux C library. The constants below are the values of the Linux headers
  (\<^verbatim>\<open>unistd.h\<close>, \<^verbatim>\<open>poll.h\<close>, \<^verbatim>\<open>errno.h\<close>, \<^verbatim>\<open>fcntl.h\<close>, \<^verbatim>\<open>termios.h\<close>,
  \<^verbatim>\<open>sys/wait.h\<close>, \<^verbatim>\<open>sys/ioctl.h\<close>). A C \<^verbatim>\<open>int\<close> is an \<open>int\<close> here: the programs do
  no arithmetic on their integers that could overflow, and the two conversions to
  \<^verbatim>\<open>unsigned short\<close> are written out with \<open>word_of_int\<close>.
\<close>

type_synonym byte = "8 word"

definition STDIN_FILENO :: int where "STDIN_FILENO = 0"
definition STDOUT_FILENO :: int where "STDOUT_FILENO = 1"

definition POLLIN :: "16 word" where "POLLIN = 0x0001"
definition POLLERR :: "16 word" where "POLLERR = 0x0008"
definition POLLHUP :: "16 word" where "POLLHUP = 0x0010"

definition EINTR :: int where "EINTR = 4"
definition EIO :: int where "EIO = 5"
definition EAGAIN :: int where "EAGAIN = 11"

definition O_NONBLOCK :: int where "O_NONBLOCK = 0x800"
definition TCSANOW :: int where "TCSANOW = 0"
definition WNOHANG :: int where "WNOHANG = 1"
definition TIOCGWINSZ :: "64 word" where "TIOCGWINSZ = 0x5413"

text \<open>
  The wait-status macros of \<^verbatim>\<open>sys/wait.h\<close> (glibc, \<^verbatim>\<open>bits/waitstatus.h\<close>):
  \<^verbatim>\<open>WTERMSIG(s) = s & 0x7f\<close>, \<^verbatim>\<open>WIFEXITED(s) = (WTERMSIG(s) == 0)\<close>,
  \<^verbatim>\<open>WEXITSTATUS(s) = (s & 0xff00) >> 8\<close>, and the encoding the kernel uses,
  \<^verbatim>\<open>W_EXITCODE(ret, sig) = ret << 8 | sig\<close>.
\<close>

definition WTERMSIG :: "int \<Rightarrow> int" where
  "WTERMSIG status = status AND 0x7f"

definition WIFEXITED :: "int \<Rightarrow> bool" where
  "WIFEXITED status = (WTERMSIG status = 0)"

definition WEXITSTATUS :: "int \<Rightarrow> int" where
  "WEXITSTATUS status = drop_bit 8 (status AND 0xff00)"

definition W_EXITCODE :: "int \<Rightarrow> int \<Rightarrow> int" where
  "W_EXITCODE ret sig = push_bit 8 ret OR sig"

text \<open>
  \<^verbatim>\<open>atoi\<close> as glibc has it, \<^verbatim>\<open>(int) strtol(s, NULL, 10)\<close>: leading white space is
  skipped, one sign is read, then the longest run of decimal digits; no digit gives 0;
  a value outside \<^verbatim>\<open>long\<close> saturates and the conversion to \<^verbatim>\<open>int\<close> keeps the low 32
  bits.
\<close>

definition isspace :: "char \<Rightarrow> bool" where
  "isspace c = (c \<in> set [CHR '' '', CHR 0x09, CHR 0x0A, CHR 0x0B, CHR 0x0C, CHR 0x0D])"

definition isdigit :: "char \<Rightarrow> bool" where
  "isdigit c = ((48::nat) \<le> of_char c \<and> of_char c \<le> (57::nat))"

fun digits_val :: "int \<Rightarrow> string \<Rightarrow> int" where
  "digits_val acc [] = acc"
| "digits_val acc (c # cs) =
     (if isdigit c then digits_val (10 * acc + (of_char c - 48)) cs else acc)"

definition LONG_MAX :: int where "LONG_MAX = 2 ^ 63 - 1"
definition LONG_MIN :: int where "LONG_MIN = - (2 ^ 63)"

definition strtol10 :: "string \<Rightarrow> int" where
  "strtol10 s =
     (case dropWhile isspace s of
        [] \<Rightarrow> 0
      | c # cs \<Rightarrow>
          if c = CHR ''-'' then max LONG_MIN (- digits_val 0 cs)
          else if c = CHR ''+'' then min LONG_MAX (digits_val 0 cs)
          else min LONG_MAX (digits_val 0 (c # cs)))"

definition atoi :: "string \<Rightarrow> int" where
  "atoi s = sint (word_of_int (strtol10 s) :: 32 word)"

text \<open>
  A value that does not start with a number: after the white space and one optional sign
  there is no decimal digit.
\<close>

definition no_number :: "string \<Rightarrow> bool" where
  "no_number s =
     (case dropWhile isspace s of
        [] \<Rightarrow> True
      | c # cs \<Rightarrow>
          if c = CHR ''-'' \<or> c = CHR ''+'' then (case cs of [] \<Rightarrow> True | d # ds \<Rightarrow> \<not> isdigit d)
          else \<not> isdigit c)"

section \<open>The line-ending correction (krun-relay.c, lines 124-127)\<close>

text \<open>
  \<^verbatim>\<open>for (ssize_t i = 0; i < n; i++) if (buf[i] == '\n') buf[i] = '\r';\<close>
  The buffer is the list of bytes, the loop counter is \<open>i\<close>.
\<close>

function conv_loop :: "nat \<Rightarrow> nat \<Rightarrow> byte list \<Rightarrow> byte list" where
  "conv_loop i n buf =
     (if i < n then conv_loop (i + 1) n (if buf ! i = 0x0a then buf[i := 0x0d] else buf)
      else buf)"
  by pat_completeness auto
termination
  by (relation "measure (\<lambda>(i, n, buf). n - i)") auto

declare conv_loop.simps [simp del]

section \<open>Terminal size from the environment (krun-relay.c, lines 45-49 and 60-63)\<close>

record winsize =
  ws_row :: "16 word"
  ws_col :: "16 word"
  ws_xpixel :: "16 word"
  ws_ypixel :: "16 word"

definition main_rows :: "(string \<rightharpoonup> string) \<Rightarrow> int" where
  "main_rows getenv = (case getenv ''WRAPIX_TERM_ROWS'' of None \<Rightarrow> 24 | Some r \<Rightarrow> atoi r)"

definition main_cols :: "(string \<rightharpoonup> string) \<Rightarrow> int" where
  "main_cols getenv = (case getenv ''WRAPIX_TERM_COLS'' of None \<Rightarrow> 80 | Some c \<Rightarrow> atoi c)"

definition main_ws :: "(string \<rightharpoonup> string) \<Rightarrow> winsize" where
  "main_ws getenv =
     \<lparr>ws_row = word_of_int (main_rows getenv), ws_col = word_of_int (main_cols getenv),
      ws_xpixel = 0, ws_ypixel = 0\<rparr>"

section \<open>The child-exit flag and its handler (krun-relay.c, lines 31-41)\<close>

text \<open>
  The two variables shared between \<^verbatim>\<open>main\<close> and the \<^verbatim>\<open>SIGCHLD\<close> handler. A call of
  \<^verbatim>\<open>waitpid\<close> returns \<open>w_ret\<close> and leaves \<open>w_status\<close> in the caller's \<^verbatim>\<open>status\<close>
  variable (what the kernel stored on success, the variable's old content otherwise).
\<close>

record shared =
  child_exited :: int
  child_status :: int

record wres =
  w_ret :: int
  w_status :: int

definition shared0 :: shared where
  "shared0 = \<lparr>child_exited = 0, child_status = 0\<rparr>"

definition sigchld_handler :: "wres \<Rightarrow> shared \<Rightarrow> shared" where
  "sigchld_handler w s =
     (if w_ret w > 0 then s\<lparr>child_status := w_status w, child_exited := 1\<rparr> else s)"

text \<open>
  The same handler assignment by assignment: the values the shared pair goes through
  while one invocation runs, the first being the state it found.
\<close>

definition sigchld_handler_steps :: "wres \<Rightarrow> shared \<Rightarrow> shared list" where
  "sigchld_handler_steps w s =
     (if w_ret w > 0
      then [s, s\<lparr>child_status := w_status w\<rparr>, s\<lparr>child_status := w_status w, child_exited := 1\<rparr>]
      else [s])"

text \<open>
  The handler runs on the thread of \<^verbatim>\<open>main\<close> and \<^verbatim>\<open>SIGCHLD\<close> is blocked while it runs,
  so invocations do not overlap; \<open>run_handlers\<close> is a sequence of them.
\<close>

fun run_handlers :: "wres list \<Rightarrow> shared \<Rightarrow> shared" where
  "run_handlers [] s = s"
| "run_handlers (w # ws) s = run_handlers ws (sigchld_handler w s)"

section \<open>System calls and their results\<close>

text \<open>
  The result of a \<^verbatim>\<open>read\<close>: the bytes stored in the buffer (their number is the return
  value, none at end-of-file), or the value of \<^verbatim>\<open>errno\<close> after a return of \<open>- 1\<close>. The
  result of \<^verbatim>\<open>poll\<close>: its return value, \<^verbatim>\<open>errno\<close> after it, and the \<^verbatim>\<open>revents\<close> of the two
  descriptors.
\<close>

datatype rres = Rd "byte list" | RdErr int

fun rd_n :: "rres \<Rightarrow> int" where
  "rd_n (Rd bs) = int (length bs)"
| "rd_n (RdErr e) = - 1"

fun rd_bytes :: "rres \<Rightarrow> byte list" where
  "rd_bytes (Rd bs) = bs"
| "rd_bytes (RdErr e) = []"

fun rd_errno :: "rres \<Rightarrow> int" where
  "rd_errno (Rd bs) = 0"
| "rd_errno (RdErr e) = e"

record pollres =
  p_ret :: int
  p_errno :: int
  rev_stdin :: "16 word"
  rev_master :: "16 word"

text \<open>
  The trace of a run: every system call the program makes, with its arguments and, where
  the program reads it, its result (\<open>Write\<close> has the bytes handed to \<^verbatim>\<open>write\<close>, whose
  result the program never reads; \<open>Tcsetattr\<close> has whether the call took effect, for the
  console's state after the run). \<open>'t\<close> is \<^verbatim>\<open>struct termios\<close>.
\<close>

datatype 't event =
    Sigaction_SIGCHLD
  | Forkpty winsize int int
  | Perror string
  | Execvp string "string list"
  | Execv string "string list"
  | Tcgetattr int "'t option"
  | Tcsetattr int int 't bool
  | Fcntl_GETFL int int
  | Fcntl_SETFL int int
  | Poll pollres
  | Read int rres
  | Write int "byte list"
  | Close int
  | Waitpid int int wres

definition handler_events :: "wres list \<Rightarrow> 't event list" where
  "handler_events ws = map (Waitpid (- 1) WNOHANG) ws"

section \<open>The relay loop (krun-relay.c, lines 104-143)\<close>

text \<open>
  What one iteration receives from the system: the handler invocations that ran since the
  loop condition was last evaluated, the result of \<^verbatim>\<open>poll\<close>, and the results of the two
  \<^verbatim>\<open>read\<close> calls (used only when the iteration makes the call).
\<close>

record iter =
  it_sigs :: "wres list"
  it_poll :: pollres
  it_stdin :: rres
  it_master :: rres

datatype ctl = Continue | Break

definition stdin_part :: "int \<Rightarrow> iter \<Rightarrow> ctl \<times> 't event list" where
  "stdin_part master it =
     (if rev_stdin (it_poll it) AND POLLIN \<noteq> 0 then
        (let r = it_stdin it in
         if rd_n r \<le> 0 then (Break, [Read STDIN_FILENO r])
         else (Continue,
               [Read STDIN_FILENO r, Write master (conv_loop 0 (nat (rd_n r)) (rd_bytes r))]))
      else (Continue, []))"

definition master_part :: "int \<Rightarrow> iter \<Rightarrow> ctl \<times> 't event list" where
  "master_part master it =
     (if rev_master (it_poll it) AND POLLIN \<noteq> 0 then
        (let r = it_master it in
         if rd_n r > 0 then (Continue, [Read master r, Write STDOUT_FILENO (rd_bytes r)])
         else if rd_n r < 0 \<and> rd_errno r \<noteq> EAGAIN \<and> rd_errno r \<noteq> EIO
         then (Break, [Read master r])
         else (Continue, [Read master r]))
      else (Continue, []))"

definition hup_part :: "iter \<Rightarrow> ctl" where
  "hup_part it =
     (if rev_stdin (it_poll it) AND (POLLHUP OR POLLERR) \<noteq> 0 then Break
      else if rev_master (it_poll it) AND POLLHUP \<noteq> 0 then Break
      else Continue)"

definition loop_body :: "int \<Rightarrow> iter \<Rightarrow> ctl \<times> 't event list" where
  "loop_body master it =
     (let p = it_poll it in
      if p_ret p < 0 then (if p_errno p = EINTR then (Continue, [Poll p]) else (Break, [Poll p]))
      else if p_ret p = 0 then (Continue, [Poll p])
      else
        (case stdin_part master it of
           (Break, e1) \<Rightarrow> (Break, Poll p # e1)
         | (Continue, e1) \<Rightarrow>
             (case master_part master it of
                (Break, e2) \<Rightarrow> (Break, Poll p # e1 @ e2)
              | (Continue, e2) \<Rightarrow> (hup_part it, Poll p # e1 @ e2))))"

text \<open>
  The loop over a script of iterations. The result is the shared pair with which the loop
  was left, \<open>None\<close> when the script ends with the loop still running, and the events so
  far.
\<close>

fun relay_loop :: "int \<Rightarrow> shared \<Rightarrow> iter list \<Rightarrow> shared option \<times> 't event list" where
  "relay_loop master s [] = (None, [])"
| "relay_loop master s (it # its) =
     (let s1 = run_handlers (it_sigs it) s; e0 = handler_events (it_sigs it) in
      if child_exited s1 \<noteq> 0 then (Some s1, e0)
      else
        (case loop_body master it of
           (Break, e1) \<Rightarrow> (Some s1, e0 @ e1)
         | (Continue, e1) \<Rightarrow>
             (case relay_loop master s1 its of (r, e2) \<Rightarrow> (r, e0 @ e1 @ e2))))"

section \<open>Drain and teardown (krun-relay.c, lines 145-165)\<close>

text \<open>
  The drain loop over a script of reads: whether the loop was left (\<open>False\<close> when the
  script ends with the loop still running), and the events so far.
\<close>

fun drain :: "int \<Rightarrow> rres list \<Rightarrow> bool \<times> 't event list" where
  "drain master [] = (False, [])"
| "drain master (r # rs) =
     (if rd_n r \<le> 0 then (True, [Read master r])
      else
        (case drain master rs of
           (left, e) \<Rightarrow> (left, Read master r # Write STDOUT_FILENO (rd_bytes r) # e)))"

text \<open>
  The environment of one run: what the system answers. \<open>e_forkpty\<close> is the pair of the
  returned process id and the master descriptor; \<open>e_exec_ok\<close> is whether the child's
  \<^verbatim>\<open>exec\<close> succeeds; \<open>e_tcgetattr\<close> is the captured attribute set when the call succeeds;
  \<open>e_cfmakeraw\<close> is the library function of that name; \<open>e_tcset_raw_ok\<close> and
  \<open>e_tcset_restore_ok\<close> are whether the two calls of \<^verbatim>\<open>tcsetattr\<close> take effect; \<open>e_getfl\<close>
  is the result of \<^verbatim>\<open>fcntl(master, F_GETFL)\<close>; \<open>e_loop\<close> and \<open>e_drain\<close> are the scripts of
  the two loops; \<open>e_waitpid\<close> is the result of the blocking \<^verbatim>\<open>waitpid\<close> of line 161, \<open>None\<close>
  when it never returns. The five \<open>e_sigs\<close> lists are the handler invocations between the
  last evaluation of the loop condition and the read of line 159, between that read and
  the call of line 161, between the end of that call and the assignment of line 162 (a
  signal that interrupts the blocking wait has its handler run then), before the first
  read of \<^verbatim>\<open>child_status\<close> in line 165 and between the two reads of that line.

  \<^verbatim>\<open>main\<close> reads the shared pair in the loop condition, in line 159 and in line 165, and
  writes it in line 162. The handler invocations are grouped by these points: a group
  holds the invocations since the point before it, in the order in which they ran, and
  the pair \<^verbatim>\<open>main\<close> reads is the pair after the whole group. In the trace the calls of a
  group stand together, just before the point that ends the group (those of
  \<open>e_sigs_wait\<close> before the blocking wait, those of \<open>e_sigs_intr\<close> after it); where
  between two such points the kernel delivered a signal, among the calls \<^verbatim>\<open>main\<close> made
  there, is not recorded.
\<close>

record 't env =
  e_getenv :: "string \<rightharpoonup> string"
  e_argv :: "string list"
  e_forkpty :: "int \<times> int"
  e_exec_ok :: bool
  e_tcgetattr :: "'t option"
  e_cfmakeraw :: "'t \<Rightarrow> 't"
  e_tcset_raw_ok :: bool
  e_getfl :: int
  e_loop :: "iter list"
  e_drain :: "rres list"
  e_tcset_restore_ok :: bool
  e_sigs_teardown :: "wres list"
  e_sigs_wait :: "wres list"
  e_waitpid :: "wres option"
  e_sigs_intr :: "wres list"
  e_sigs_ret1 :: "wres list"
  e_sigs_ret2 :: "wres list"

definition main_return :: "'t env \<Rightarrow> shared \<Rightarrow> int \<times> 't event list" where
  "main_return env s =
     (let s1 = run_handlers (e_sigs_ret1 env) s;
          s2 = run_handlers (e_sigs_ret2 env) s1
      in (if WIFEXITED (child_status s1) then WEXITSTATUS (child_status s2) else 1,
          handler_events (e_sigs_ret1 env) @ handler_events (e_sigs_ret2 env)))"

text \<open>
  Lines 152-165. The result is the value \<^verbatim>\<open>main\<close> returns, \<open>None\<close> when the blocking wait
  never returns, and the events.
\<close>

definition teardown :: "'t env \<Rightarrow> int \<Rightarrow> int \<Rightarrow> 't option \<Rightarrow> shared \<Rightarrow> int option \<times> 't event list" where
  "teardown env pid master orig s =
     (let e1 = Close master #
               (case orig of
                  Some a \<Rightarrow> [Tcsetattr STDIN_FILENO TCSANOW a (e_tcset_restore_ok env)]
                | None \<Rightarrow> []);
          s1 = run_handlers (e_sigs_teardown env) s;
          e2 = handler_events (e_sigs_teardown env)
      in if child_exited s1 = 0 then
           (case e_waitpid env of
              None \<Rightarrow> (None, e1 @ e2 @ handler_events (e_sigs_wait env))
            | Some w \<Rightarrow>
                (let s2 = run_handlers (e_sigs_intr env) (run_handlers (e_sigs_wait env) s1);
                     s3 = s2\<lparr>child_status := w_status w\<rparr>;
                     (rc, e4) = main_return env s3
                 in (Some rc,
                     e1 @ e2 @ handler_events (e_sigs_wait env) @ [Waitpid pid 0 w] @
                     handler_events (e_sigs_intr env) @ e4)))
         else (let (rc, e4) = main_return env s1 in (Some rc, e1 @ e2 @ e4)))"

text \<open>
  The events of the teardown that follow the close and the restore: the handler
  invocations and, when the flag was read as zero, the blocking wait.
\<close>

definition teardown_tail :: "'t env \<Rightarrow> int \<Rightarrow> shared \<Rightarrow> 't event list" where
  "teardown_tail env pid s =
     handler_events (e_sigs_teardown env) @
     (if child_exited (run_handlers (e_sigs_teardown env) s) = 0 then
        handler_events (e_sigs_wait env) @
        (case e_waitpid env of
           None \<Rightarrow> []
         | Some w \<Rightarrow>
             Waitpid pid 0 w # handler_events (e_sigs_intr env) @
             handler_events (e_sigs_ret1 env) @ handler_events (e_sigs_ret2 env))
      else handler_events (e_sigs_ret1 env) @ handler_events (e_sigs_ret2 env))"

section \<open>The program (krun-relay.c, lines 43-165)\<close>

text \<open>
  A run ends with the process exiting (a \<^verbatim>\<open>return\<close> from \<^verbatim>\<open>main\<close> or \<^verbatim>\<open>_exit\<close>) or, in
  the child, with the process image replaced by the command. The result of \<open>main\<close> is
  that outcome, \<open>None\<close> for a run that has not ended (the scripts of the environment end
  with the loop or the drain still running, or the blocking wait never returns), and
  the trace so far.
\<close>

datatype outcome = Exit int | Execed

definition child_main :: "'t env \<Rightarrow> outcome option \<times> 't event list" where
  "child_main env =
     (let argv = e_argv env;
          call = (if int (length argv) > 1 then Execvp (argv ! 1) (tl argv)
                  else Execv ''/krun-init.sh'' [''/krun-init.sh''])
      in if e_exec_ok env then (Some Execed, [call])
         else (Some (Exit 127), [call, Perror ''exec'']))"

text \<open>Lines 88-99: capture the console's attributes, try raw mode, make the master non-blocking.\<close>

definition parent_setup :: "'t env \<Rightarrow> int \<Rightarrow> 't event list" where
  "parent_setup env master =
     (let orig = e_tcgetattr env;
          e1 = Tcgetattr STDIN_FILENO orig #
               (case orig of
                  Some a \<Rightarrow> [Tcsetattr STDIN_FILENO TCSANOW (e_cfmakeraw env a) (e_tcset_raw_ok env)]
                | None \<Rightarrow> []);
          flags = e_getfl env;
          e2 = Fcntl_GETFL master flags #
               (if flags \<ge> 0 then [Fcntl_SETFL master (flags OR O_NONBLOCK)] else [])
      in e1 @ e2)"

definition parent_main :: "'t env \<Rightarrow> int \<Rightarrow> int \<Rightarrow> outcome option \<times> 't event list" where
  "parent_main env pid master =
     (case relay_loop master shared0 (e_loop env) of
        (None, e3) \<Rightarrow> (None, parent_setup env master @ e3)
      | (Some s, e3) \<Rightarrow>
          (case drain master (e_drain env) of
             (False, e4) \<Rightarrow> (None, parent_setup env master @ e3 @ e4)
           | (True, e4) \<Rightarrow>
               (case teardown env pid master (e_tcgetattr env) s of
                  (rc, e5) \<Rightarrow> (map_option Exit rc, parent_setup env master @ e3 @ e4 @ e5))))"

definition main :: "'t env \<Rightarrow> outcome option \<times> 't event list" where
  "main env =
     (let (pid, master) = e_forkpty env;
          e0 = [Sigaction_SIGCHLD, Forkpty (main_ws (e_getenv env)) pid master]
      in if pid < 0 then (Some (Exit 1), e0 @ [Perror ''forkpty''])
         else if pid = 0 then (let (out, e) = child_main env in (out, e0 @ e))
         else (let (out, e) = parent_main env pid master in (out, e0 @ e)))"

section \<open>Reading a trace\<close>

text \<open>The chunks written to a descriptor, and the non-empty chunks read from one, in order.\<close>

definition wr_of :: "int \<Rightarrow> 't event \<Rightarrow> byte list list" where
  "wr_of fd e = (case e of Write f bs \<Rightarrow> if f = fd then [bs] else [] | _ \<Rightarrow> [])"

definition writes :: "int \<Rightarrow> 't event list \<Rightarrow> byte list list" where
  "writes fd es = concat (map (wr_of fd) es)"

definition rd_of :: "int \<Rightarrow> 't event \<Rightarrow> byte list list" where
  "rd_of fd e = (case e of Read f r \<Rightarrow> if f = fd \<and> rd_n r > 0 then [rd_bytes r] else [] | _ \<Rightarrow> [])"

definition reads :: "int \<Rightarrow> 't event list \<Rightarrow> byte list list" where
  "reads fd es = concat (map (rd_of fd) es)"

text \<open>The calls of \<^verbatim>\<open>tcsetattr\<close>, \<^verbatim>\<open>close\<close> and \<^verbatim>\<open>waitpid\<close> of a trace, in order.\<close>

definition tc_of :: "'t event \<Rightarrow> (int \<times> int \<times> 't \<times> bool) list" where
  "tc_of e = (case e of Tcsetattr fd act a ok \<Rightarrow> [(fd, act, a, ok)] | _ \<Rightarrow> [])"

definition tcsets :: "'t event list \<Rightarrow> (int \<times> int \<times> 't \<times> bool) list" where
  "tcsets es = concat (map tc_of es)"

definition cl_of :: "'t event \<Rightarrow> int list" where
  "cl_of e = (case e of Close fd \<Rightarrow> [fd] | _ \<Rightarrow> [])"

definition closes :: "'t event list \<Rightarrow> int list" where
  "closes es = concat (map cl_of es)"

definition wt_of :: "'t event \<Rightarrow> (int \<times> int \<times> wres) list" where
  "wt_of e = (case e of Waitpid p opt w \<Rightarrow> [(p, opt, w)] | _ \<Rightarrow> [])"

definition waits :: "'t event list \<Rightarrow> (int \<times> int \<times> wres) list" where
  "waits es = concat (map wt_of es)"

definition is_io :: "'t event \<Rightarrow> bool" where
  "is_io e = (case e of Poll p \<Rightarrow> True | Read fd r \<Rightarrow> True | Write fd bs \<Rightarrow> True | _ \<Rightarrow> False)"

text \<open>
  The console's attributes after a trace, from the attributes \<open>c\<close> before it: a call of
  \<^verbatim>\<open>tcsetattr\<close> on standard input that succeeds replaces them, one that fails leaves them.
\<close>

definition console_after :: "'t \<Rightarrow> 't event list \<Rightarrow> 't" where
  "console_after c es =
     foldl (\<lambda>c (fd, act, a, ok). if fd = STDIN_FILENO \<and> ok then a else c) c (tcsets es)"

text \<open>
  The processes a trace has reaped: the return values of its successful \<^verbatim>\<open>waitpid\<close> calls.
\<close>

definition reaped :: "'t event list \<Rightarrow> int list" where
  "reaped es = map (\<lambda>(p, opt, w). w_ret w) (filter (\<lambda>(p, opt, w). w_ret w > 0) (waits es))"

text \<open>
  An environment with one child whose wait status is \<open>st\<close>: every successful reap of a
  handler invocation stores \<open>st\<close>, and the blocking wait of line 161, when it returns,
  has succeeded and stored \<open>st\<close>.
\<close>

definition all_sigs :: "'t env \<Rightarrow> wres list" where
  "all_sigs env =
     concat (map it_sigs (e_loop env)) @ e_sigs_teardown env @ e_sigs_wait env @
     e_sigs_intr env @ e_sigs_ret1 env @ e_sigs_ret2 env"

definition reaps_carry :: "'t env \<Rightarrow> int \<Rightarrow> bool" where
  "reaps_carry env st =
     (list_all (\<lambda>w. w_ret w > 0 \<longrightarrow> w_status w = st) (all_sigs env) \<and>
      (case e_waitpid env of None \<Rightarrow> True | Some w \<Rightarrow> w_ret w > 0 \<and> w_status w = st))"

section \<open>The identity-override shim (fakeuid.c)\<close>

definition getuid :: int where "getuid = 1000"
definition geteuid :: int where "geteuid = 1000"
definition getgid :: int where "getgid = 1000"
definition getegid :: int where "getegid = 1000"

text \<open>
  The wrapper of \<^verbatim>\<open>ioctl\<close> (lines 27-52). \<open>real_ioctl\<close> is the function \<^verbatim>\<open>dlsym\<close> returned;
  the memory \<^verbatim>\<open>arg\<close> points to is read as a \<^verbatim>\<open>struct winsize\<close> followed by whatever else
  is there (the record's extension), and both functions return their return value with
  that memory as they leave it.
\<close>

definition ioctl ::
  "(string \<rightharpoonup> string) \<Rightarrow> (int \<Rightarrow> 64 word \<Rightarrow> 'a winsize_scheme \<Rightarrow> int \<times> 'a winsize_scheme) \<Rightarrow>
   int \<Rightarrow> 64 word \<Rightarrow> 'a winsize_scheme \<Rightarrow> int \<times> 'a winsize_scheme" where
  "ioctl getenv real_ioctl fd request arg =
     (let (ret, ws) = real_ioctl fd request arg in
      if request = TIOCGWINSZ then
        (if ret \<noteq> 0 \<or> (ws_row ws = 0 \<and> ws_col ws = 0) then
           (let rows = getenv ''WRAPIX_TERM_ROWS'';
                cols = getenv ''WRAPIX_TERM_COLS'';
                ws1 = (case rows of Some r \<Rightarrow> ws\<lparr>ws_row := word_of_int (atoi r)\<rparr> | None \<Rightarrow> ws);
                ws2 = (case cols of Some c \<Rightarrow> ws1\<lparr>ws_col := word_of_int (atoi c)\<rparr> | None \<Rightarrow> ws1)
            in (0, ws2))
         else (ret, ws))
      else (ret, ws))"

section \<open>Example runs\<close>

datatype tattr = Cooked | Raw

text \<open>
  A session in which the user types \<^verbatim>\<open>ls\<close> and Enter, the child answers \<^verbatim>\<open>ok\<close>, one
  wait is interrupted, and the child then exits with code 7 and is reaped by the handler.
\<close>

definition env1 :: "tattr env" where
  "env1 =
     \<lparr>e_getenv = [''WRAPIX_TERM_ROWS'' \<mapsto> ''50'', ''WRAPIX_TERM_COLS'' \<mapsto> ''120''],
      e_argv = [''krun-relay'', ''/bin/sh''],
      e_forkpty = (42, 3),
      e_exec_ok = True,
      e_tcgetattr = Some Cooked,
      e_cfmakeraw = (\<lambda>a. Raw),
      e_tcset_raw_ok = True,
      e_getfl = 2,
      e_loop =
        [\<lparr>it_sigs = [], it_poll = \<lparr>p_ret = 1, p_errno = 0, rev_stdin = 1, rev_master = 0\<rparr>,
          it_stdin = Rd [0x6c, 0x73, 0x0a], it_master = RdErr 11\<rparr>,
         \<lparr>it_sigs = [], it_poll = \<lparr>p_ret = 1, p_errno = 0, rev_stdin = 0, rev_master = 1\<rparr>,
          it_stdin = RdErr 11, it_master = Rd [0x6f, 0x6b, 0x0d, 0x0a]\<rparr>,
         \<lparr>it_sigs = [], it_poll = \<lparr>p_ret = - 1, p_errno = 4, rev_stdin = 0, rev_master = 0\<rparr>,
          it_stdin = RdErr 11, it_master = RdErr 11\<rparr>,
         \<lparr>it_sigs = [\<lparr>w_ret = 42, w_status = 0x0700\<rparr>],
          it_poll = \<lparr>p_ret = 0, p_errno = 0, rev_stdin = 0, rev_master = 0\<rparr>,
          it_stdin = RdErr 11, it_master = RdErr 11\<rparr>],
      e_drain = [Rd [0x21], RdErr 11],
      e_tcset_restore_ok = True,
      e_sigs_teardown = [],
      e_sigs_wait = [],
      e_waitpid = None,
      e_sigs_intr = [],
      e_sigs_ret1 = [],
      e_sigs_ret2 = []\<rparr>"

definition trace1 :: "tattr event list" where
  "trace1 =
     [Sigaction_SIGCHLD,
      Forkpty \<lparr>ws_row = 50, ws_col = 120, ws_xpixel = 0, ws_ypixel = 0\<rparr> 42 3,
      Tcgetattr 0 (Some Cooked),
      Tcsetattr 0 0 Raw True,
      Fcntl_GETFL 3 2,
      Fcntl_SETFL 3 0x802,
      Poll \<lparr>p_ret = 1, p_errno = 0, rev_stdin = 1, rev_master = 0\<rparr>,
      Read 0 (Rd [0x6c, 0x73, 0x0a]),
      Write 3 [0x6c, 0x73, 0x0d],
      Poll \<lparr>p_ret = 1, p_errno = 0, rev_stdin = 0, rev_master = 1\<rparr>,
      Read 3 (Rd [0x6f, 0x6b, 0x0d, 0x0a]),
      Write 1 [0x6f, 0x6b, 0x0d, 0x0a],
      Poll \<lparr>p_ret = - 1, p_errno = 4, rev_stdin = 0, rev_master = 0\<rparr>,
      Waitpid (- 1) 1 \<lparr>w_ret = 42, w_status = 0x0700\<rparr>,
      Read 3 (Rd [0x21]),
      Write 1 [0x21],
      Read 3 (RdErr 11),
      Close 3,
      Tcsetattr 0 0 Cooked True]"

text \<open>
  A session that ends with end-of-file on standard input while the child is still
  running; the console is no terminal, and the child is later killed by signal 9 and
  reaped by the blocking wait.
\<close>

definition env2 :: "tattr env" where
  "env2 =
     \<lparr>e_getenv = Map.empty,
      e_argv = [''krun-relay''],
      e_forkpty = (42, 3),
      e_exec_ok = True,
      e_tcgetattr = None,
      e_cfmakeraw = (\<lambda>a. Raw),
      e_tcset_raw_ok = False,
      e_getfl = - 1,
      e_loop =
        [\<lparr>it_sigs = [], it_poll = \<lparr>p_ret = 1, p_errno = 0, rev_stdin = 1, rev_master = 0\<rparr>,
          it_stdin = Rd [], it_master = RdErr 11\<rparr>],
      e_drain = [RdErr 11],
      e_tcset_restore_ok = False,
      e_sigs_teardown = [],
      e_sigs_wait = [],
      e_waitpid = Some \<lparr>w_ret = 42, w_status = 9\<rparr>,
      e_sigs_intr = [],
      e_sigs_ret1 = [],
      e_sigs_ret2 = []\<rparr>"

definition trace2 :: "tattr event list" where
  "trace2 =
     [Sigaction_SIGCHLD,
      Forkpty \<lparr>ws_row = 24, ws_col = 80, ws_xpixel = 0, ws_ypixel = 0\<rparr> 42 3,
      Tcgetattr 0 None,
      Fcntl_GETFL 3 (- 1),
      Poll \<lparr>p_ret = 1, p_errno = 0, rev_stdin = 1, rev_master = 0\<rparr>,
      Read 0 (Rd []),
      Read 3 (RdErr 11),
      Close 3,
      Waitpid 42 0 \<lparr>w_ret = 42, w_status = 9\<rparr>]"


text \<open>
  Variants of the two runs: \<^verbatim>\<open>forkpty\<close> fails; the run is the child and its \<^verbatim>\<open>exec\<close>
  fails.
\<close>

definition env_nofork :: "tattr env" where
  "env_nofork = env2\<lparr>e_forkpty := (- 1, 0)\<rparr>"

definition env_noexec :: "tattr env" where
  "env_noexec = env1\<lparr>e_forkpty := (0, 3), e_exec_ok := False\<rparr>"

text \<open>
  The parent of a child whose \<^verbatim>\<open>exec\<close> fails at once: the child has printed its message
  and exited with code 127 (wait status \<open>0x7f00\<close>) and the handler has reaped it by the time
  the loop condition is evaluated for the first time; the drain reads the message
  (\<open>exec_msg\<close>, the bytes of \<^verbatim>\<open>exec: No such file or directory\<close> and the line ending) and
  then fails with \<^verbatim>\<open>EIO\<close>.
\<close>

definition exec_msg :: "byte list" where
  "exec_msg =
     [0x65, 0x78, 0x65, 0x63, 0x3a, 0x20, 0x4e, 0x6f, 0x20, 0x73, 0x75, 0x63,
      0x68, 0x20, 0x66, 0x69, 0x6c, 0x65, 0x20, 0x6f, 0x72, 0x20, 0x64, 0x69,
      0x72, 0x65, 0x63, 0x74, 0x6f, 0x72, 0x79, 0x0d, 0x0a]"

definition env_127 :: "tattr env" where
  "env_127 =
     env1\<lparr>e_loop :=
            [\<lparr>it_sigs = [\<lparr>w_ret = 42, w_status = 0x7f00\<rparr>],
              it_poll = \<lparr>p_ret = 0, p_errno = 0, rev_stdin = 0, rev_master = 0\<rparr>,
              it_stdin = RdErr 11, it_master = RdErr 11\<rparr>],
          e_drain := [Rd exec_msg, RdErr 5]\<rparr>"

definition trace_127 :: "tattr event list" where
  "trace_127 =
     [Sigaction_SIGCHLD,
      Forkpty \<lparr>ws_row = 50, ws_col = 120, ws_xpixel = 0, ws_ypixel = 0\<rparr> 42 3,
      Tcgetattr 0 (Some Cooked),
      Tcsetattr 0 0 Raw True,
      Fcntl_GETFL 3 2,
      Fcntl_SETFL 3 0x802,
      Waitpid (- 1) 1 \<lparr>w_ret = 42, w_status = 0x7f00\<rparr>,
      Read 3 (Rd exec_msg),
      Write 1 exec_msg,
      Read 3 (RdErr 5),
      Close 3,
      Tcsetattr 0 0 Cooked True]"

text \<open>
  Runs that reach the blocking wait of line 161. In \<open>env_race st g\<close> the session of
  \<open>env2\<close> has a child that terminates with wait status \<open>st\<close> right after line 159 has read
  the flag as zero: the handler reaps it before line 161 is reached, so the blocking wait
  finds no child, returns \<open>- 1\<close> (\<^verbatim>\<open>ECHILD\<close>) and leaves the variable \<^verbatim>\<open>status\<close> of line 160
  as it was. That variable is not initialised; \<open>g\<close> is what it holds.
\<close>

definition env_race :: "int \<Rightarrow> int \<Rightarrow> tattr env" where
  "env_race st g =
     env2\<lparr>e_sigs_wait := [\<lparr>w_ret = 42, w_status = st\<rparr>],
          e_waitpid := Some \<lparr>w_ret = - 1, w_status = g\<rparr>\<rparr>"

definition trace_race :: "int \<Rightarrow> int \<Rightarrow> tattr event list" where
  "trace_race st g =
     [Sigaction_SIGCHLD,
      Forkpty \<lparr>ws_row = 24, ws_col = 80, ws_xpixel = 0, ws_ypixel = 0\<rparr> 42 3,
      Tcgetattr 0 None,
      Fcntl_GETFL 3 (- 1),
      Poll \<lparr>p_ret = 1, p_errno = 0, rev_stdin = 1, rev_master = 0\<rparr>,
      Read 0 (Rd []),
      Read 3 (RdErr 11),
      Close 3,
      Waitpid (- 1) 1 \<lparr>w_ret = 42, w_status = st\<rparr>,
      Waitpid 42 0 \<lparr>w_ret = - 1, w_status = g\<rparr>]"

text \<open>
  In \<open>env_eintr\<close> the user types \<^verbatim>\<open>ls\<close> and Enter, the child answers \<^verbatim>\<open>ok\<close>, and standard
  input then is at end-of-file while the child is still running. A \<^verbatim>\<open>SIGCHLD\<close> that is
  not the child's termination (sent with \<^verbatim>\<open>kill\<close>) arrives while \<^verbatim>\<open>main\<close> is blocked in
  line 161: the handler finds no terminated child (its \<^verbatim>\<open>waitpid\<close> returns 0), and the
  blocking wait returns \<open>- 1\<close> (\<^verbatim>\<open>EINTR\<close>: the handler is installed without \<^verbatim>\<open>SA_RESTART\<close>),
  leaving \<^verbatim>\<open>status\<close> as it was.
\<close>

definition env_eintr :: "tattr env" where
  "env_eintr =
     env1\<lparr>e_loop :=
            take 2 (e_loop env1) @
            [\<lparr>it_sigs = [], it_poll = \<lparr>p_ret = 1, p_errno = 0, rev_stdin = 1, rev_master = 0\<rparr>,
              it_stdin = Rd [], it_master = RdErr 11\<rparr>],
          e_waitpid := Some \<lparr>w_ret = - 1, w_status = 0\<rparr>,
          e_sigs_intr := [\<lparr>w_ret = 0, w_status = 0\<rparr>]\<rparr>"

definition trace_eintr :: "tattr event list" where
  "trace_eintr =
     take 12 trace1 @
     [Poll \<lparr>p_ret = 1, p_errno = 0, rev_stdin = 1, rev_master = 0\<rparr>,
      Read 0 (Rd []),
      Read 3 (Rd [0x21]),
      Write 1 [0x21],
      Read 3 (RdErr 11),
      Close 3,
      Tcsetattr 0 0 Cooked True,
      Waitpid 42 0 \<lparr>w_ret = - 1, w_status = 0\<rparr>,
      Waitpid (- 1) 1 \<lparr>w_ret = 0, w_status = 0\<rparr>]"

text \<open>
  In \<open>env_orphan\<close> the child is running and another descendant of the relay, process 99,
  exits with code 3 after the second iteration; the handler, which waits for any child,
  reaps it.
\<close>

definition env_orphan :: "tattr env" where
  "env_orphan =
     env1\<lparr>e_loop :=
            take 2 (e_loop env1) @
            [\<lparr>it_sigs = [\<lparr>w_ret = 99, w_status = 0x0300\<rparr>],
              it_poll = \<lparr>p_ret = 0, p_errno = 0, rev_stdin = 0, rev_master = 0\<rparr>,
              it_stdin = RdErr 11, it_master = RdErr 11\<rparr>]\<rparr>"

definition trace_orphan :: "tattr event list" where
  "trace_orphan =
     take 12 trace1 @
     [Waitpid (- 1) 1 \<lparr>w_ret = 99, w_status = 0x0300\<rparr>,
      Read 3 (Rd [0x21]),
      Write 1 [0x21],
      Read 3 (RdErr 11),
      Close 3,
      Tcsetattr 0 0 Cooked True]"

text \<open>The session \<open>env1\<close> cut off after its second iteration: the relay is still in its loop.\<close>

definition env_running :: "tattr env" where
  "env_running = env1\<lparr>e_loop := take 2 (e_loop env1)\<rparr>"

definition trace_running :: "tattr event list" where
  "trace_running = take 12 trace1"

section \<open>The conversion loop is a byte-wise map\<close>

lemma conv_loop_gen:
  "i \<le> length buf \<Longrightarrow>
   conv_loop i (length buf) buf = take i buf @ map (\<lambda>b. if b = 0x0a then 0x0d else b) (drop i buf)"
proof (induction i "length buf" buf rule: conv_loop.induct)
  case (1 i buf)
  show ?case
  proof (cases "i < length buf")
    case False
    with 1 show ?thesis by (simp add: conv_loop.simps)
  next
    case True
    let ?buf' = "if buf ! i = 0x0a then buf[i := 0x0d] else buf"
    have len: "length ?buf' = length buf" by simp
    have "conv_loop i (length buf) buf = conv_loop (i + 1) (length ?buf') ?buf'"
      using True by (subst conv_loop.simps) simp
    also have "\<dots> = take (i + 1) ?buf' @ map (\<lambda>b. if b = 0x0a then 0x0d else b) (drop (i + 1) ?buf')"
      using 1(1)[OF True len[symmetric]] True by simp
    also have "\<dots> = take i buf @ map (\<lambda>b. if b = 0x0a then 0x0d else b) (drop i buf)"
      using True by (simp add: take_Suc_conv_app_nth Cons_nth_drop_Suc[symmetric] upd_conv_take_nth_drop)
    finally show ?thesis .
  qed
qed

lemma conv_loop_map:
  "conv_loop 0 (length bs) bs = map (\<lambda>b. if b = 0x0a then 0x0d else b) bs"
  using conv_loop_gen [of 0 bs] by simp

lemma writes_append: "writes fd (xs @ ys) = writes fd xs @ writes fd ys"
  by (simp add: writes_def)
lemma reads_append: "reads fd (xs @ ys) = reads fd xs @ reads fd ys"
  by (simp add: reads_def)
lemma writes_Cons: "writes fd (x # xs) = wr_of fd x @ writes fd xs"
  by (simp add: writes_def)
lemma reads_Cons: "reads fd (x # xs) = rd_of fd x @ reads fd xs"
  by (simp add: reads_def)
lemma writes_Nil: "writes fd [] = []"
  by (simp add: writes_def)
lemma reads_Nil: "reads fd [] = []"
  by (simp add: reads_def)

lemma handler_events_io:
  "writes fd (handler_events ws :: 't event list) = []" "reads fd (handler_events ws :: 't event list) = []"
  by (induction ws) (simp_all add: handler_events_def writes_def reads_def wr_of_def rd_of_def)

section \<open>Taking a run apart\<close>

lemmas io_simps = writes_append reads_append writes_Cons reads_Cons writes_Nil reads_Nil
  wr_of_def rd_of_def handler_events_io

lemma rd_pos_len: "rd_n r > 0 \<Longrightarrow> nat (rd_n r) = length (rd_bytes r)"
  by (cases r) auto

lemma relay_loop_ConsE:
  fixes e :: "'t event list"
  assumes "relay_loop m s (it # its) = (r, e)"
  obtains (Exited) "child_exited (run_handlers (it_sigs it) s) \<noteq> 0"
      "r = Some (run_handlers (it_sigs it) s)" "e = handler_events (it_sigs it)"
  | (Broke) e1 where "child_exited (run_handlers (it_sigs it) s) = 0"
      "loop_body m it = (Break, e1)"
      "r = Some (run_handlers (it_sigs it) s)" "e = handler_events (it_sigs it) @ e1"
  | (Cont) e1 e2 where "child_exited (run_handlers (it_sigs it) s) = 0"
      "loop_body m it = (Continue, e1)"
      "relay_loop m (run_handlers (it_sigs it) s) its = (r, e2)"
      "e = handler_events (it_sigs it) @ e1 @ e2"
proof (cases "child_exited (run_handlers (it_sigs it) s) \<noteq> 0")
  case True
  with assms have "r = Some (run_handlers (it_sigs it) s)" "e = handler_events (it_sigs it)"
    by (simp_all add: Let_def)
  with True show ?thesis by (rule Exited)
next
  case False
  then have z: "child_exited (run_handlers (it_sigs it) s) = 0" by simp
  obtain c1 e1 where b: "loop_body m it = (c1, e1 :: 't event list)"
    by (cases "loop_body m it :: ctl \<times> 't event list")
  show ?thesis
  proof (cases c1)
    case Break
    with z assms b have "r = Some (run_handlers (it_sigs it) s)"
      "e = handler_events (it_sigs it) @ e1"
      by (simp_all add: Let_def)
    with z b Break show ?thesis by (intro Broke) simp_all
  next
    case Continue
    obtain r2 e2 where l: "relay_loop m (run_handlers (it_sigs it) s) its = (r2, e2 :: 't event list)"
      by (cases "relay_loop m (run_handlers (it_sigs it) s) its :: shared option \<times> 't event list")
    with z assms b Continue have "r = r2" "e = handler_events (it_sigs it) @ e1 @ e2"
      by (simp_all add: Let_def)
    with z b Continue l show ?thesis by (intro Cont) simp_all
  qed
qed

lemma drain_ConsE:
  fixes e :: "'t event list"
  assumes "drain m (r # rs) = (left, e)"
  obtains (Stop) "rd_n r \<le> 0" "left" "e = [Read m r]"
  | (Fwd) e' where "rd_n r > 0" "drain m rs = (left, e')"
      "e = Read m r # Write STDOUT_FILENO (rd_bytes r) # e'"
proof (cases "rd_n r \<le> 0")
  case True
  with assms have "left" "e = [Read m r]" by simp_all
  with True show ?thesis by (rule Stop)
next
  case False
  obtain l' e' where d: "drain m rs = (l', e' :: 't event list)"
    by (cases "drain m rs :: bool \<times> 't event list")
  with False assms have "left = l'" "e = Read m r # Write STDOUT_FILENO (rd_bytes r) # e'"
    by simp_all
  with False d show ?thesis by (intro Fwd) simp_all
qed

lemma stdin_part_io:
  fixes e :: "'t event list"
  assumes "stdin_part m it = (c, e)" "m \<noteq> STDIN_FILENO" "m \<noteq> STDOUT_FILENO"
  shows "writes m e = map (map (\<lambda>b. if b = 0x0a then 0x0d else b)) (reads STDIN_FILENO e)"
    and "writes STDOUT_FILENO e = reads m e"
  using assms
  by (auto simp: stdin_part_def Let_def io_simps conv_loop_map rd_pos_len split: if_splits)

lemma master_part_io:
  fixes e :: "'t event list"
  assumes "master_part m it = (c, e)" "m \<noteq> STDIN_FILENO" "m \<noteq> STDOUT_FILENO"
  shows "writes m e = map (map (\<lambda>b. if b = 0x0a then 0x0d else b)) (reads STDIN_FILENO e)"
    and "writes STDOUT_FILENO e = reads m e"
  using assms
  by (auto simp: master_part_def Let_def io_simps split: if_splits)

lemma loop_body_io:
  fixes e :: "'t event list"
  assumes "loop_body m it = (c, e)" "m \<noteq> STDIN_FILENO" "m \<noteq> STDOUT_FILENO"
  shows "writes m e = map (map (\<lambda>b. if b = 0x0a then 0x0d else b)) (reads STDIN_FILENO e)"
    and "writes STDOUT_FILENO e = reads m e"
proof -
  obtain c1 e1 where s: "stdin_part m it = (c1, e1 :: 't event list)"
    by (cases "stdin_part m it :: ctl \<times> 't event list")
  obtain c2 e2 where ms: "master_part m it = (c2, e2 :: 't event list)"
    by (cases "master_part m it :: ctl \<times> 't event list")
  note a = stdin_part_io[OF s assms(2,3)] master_part_io[OF ms assms(2,3)]
  have "e = [Poll (it_poll it)] \<or> e = Poll (it_poll it) # e1 \<or> e = Poll (it_poll it) # e1 @ e2"
    using assms(1) s ms by (auto simp: loop_body_def Let_def split: if_splits ctl.splits)
  then show "writes m e = map (map (\<lambda>b. if b = 0x0a then 0x0d else b)) (reads STDIN_FILENO e)"
    and "writes STDOUT_FILENO e = reads m e"
    using a by (auto simp: io_simps)
qed

lemma relay_loop_io:
  fixes e :: "'t event list"
  assumes "relay_loop m s its = (r, e)" "m \<noteq> STDIN_FILENO" "m \<noteq> STDOUT_FILENO"
  shows "writes m e = map (map (\<lambda>b. if b = 0x0a then 0x0d else b)) (reads STDIN_FILENO e)
       \<and> writes STDOUT_FILENO e = reads m e"
  using assms(1)
proof (induction its arbitrary: s e)
  case Nil
  then show ?case by (simp add: io_simps)
next
  case (Cons it its)
  from Cons.prems show ?case
  proof (cases rule: relay_loop_ConsE)
    case Exited
    then show ?thesis by (simp add: io_simps)
  next
    case (Broke e1)
    with loop_body_io[OF Broke(2) assms(2,3)] show ?thesis by (simp add: io_simps)
  next
    case (Cont e1 e2)
    with loop_body_io[OF Cont(2) assms(2,3)] Cons.IH[OF Cont(3)] show ?thesis
      by (simp add: io_simps)
  qed
qed

lemma drain_io:
  fixes e :: "'t event list"
  assumes "drain m rs = (left, e)" "m \<noteq> STDIN_FILENO" "m \<noteq> STDOUT_FILENO"
  shows "writes m e = [] \<and> reads STDIN_FILENO e = [] \<and> writes STDOUT_FILENO e = reads m e"
  using assms(1)
proof (induction rs arbitrary: e)
  case Nil
  then show ?case by (simp add: io_simps)
next
  case (Cons r rs)
  from Cons.prems show ?case
  proof (cases rule: drain_ConsE)
    case Stop
    with assms(2,3) show ?thesis by (auto simp: io_simps)
  next
    case (Fwd e')
    with Cons.IH[OF Fwd(2)] assms(2,3) show ?thesis by (simp add: io_simps)
  qed
qed

lemma main_return_io:
  fixes e :: "'t event list"
  shows "main_return env s = (rc, e) \<Longrightarrow> writes fd e = [] \<and> reads fd e = []"
  by (auto simp: main_return_def Let_def io_simps)

lemma teardown_io:
  fixes e :: "'t event list"
  assumes "teardown env pid m orig s = (rc, e)"
  shows "writes fd e = [] \<and> reads fd e = []"
  using assms
  by (auto simp: teardown_def Let_def io_simps split: if_splits option.splits prod.splits
      dest!: main_return_io)

lemma main_parentE:
  fixes tr :: "'t event list"
  assumes "main env = (out, tr)" "e_forkpty env = (pid, m)" "pid > 0"
  obtains (Looping) e3 where
    "relay_loop m shared0 (e_loop env) = (None, e3)"
    "out = None"
    "tr = [Sigaction_SIGCHLD, Forkpty (main_ws (e_getenv env)) pid m] @
          parent_setup env m @ e3"
  | (Draining) s e3 e4 where
    "relay_loop m shared0 (e_loop env) = (Some s, e3)"
    "drain m (e_drain env) = (False, e4)"
    "out = None"
    "tr = [Sigaction_SIGCHLD, Forkpty (main_ws (e_getenv env)) pid m] @
          parent_setup env m @ e3 @ e4"
  | (Torn) s e3 e4 rc e5 where
    "relay_loop m shared0 (e_loop env) = (Some s, e3)"
    "drain m (e_drain env) = (True, e4)"
    "teardown env pid m (e_tcgetattr env) s = (rc, e5)"
    "out = map_option Exit rc"
    "tr = [Sigaction_SIGCHLD, Forkpty (main_ws (e_getenv env)) pid m] @
          parent_setup env m @ e3 @ e4 @ e5"
proof -
  obtain r3 e3 where l: "relay_loop m shared0 (e_loop env) = (r3, e3 :: 't event list)"
    by (cases "relay_loop m shared0 (e_loop env) :: shared option \<times> 't event list")
  obtain left e4 where d: "drain m (e_drain env) = (left, e4 :: 't event list)"
    by (cases "drain m (e_drain env) :: bool \<times> 't event list")
  show ?thesis
  proof (cases r3)
    case None
    with assms l have "out = None"
      "tr = [Sigaction_SIGCHLD, Forkpty (main_ws (e_getenv env)) pid m] @ parent_setup env m @ e3"
      by (simp_all add: main_def parent_main_def)
    with l None show ?thesis by (intro Looping) simp_all
  next
    case (Some s)
    obtain rc e5 where t: "teardown env pid m (e_tcgetattr env) s = (rc, e5 :: 't event list)"
      by (cases "teardown env pid m (e_tcgetattr env) s :: int option \<times> 't event list")
    show ?thesis
    proof (cases left)
      case False
      with assms l d Some have "out = None"
        "tr = [Sigaction_SIGCHLD, Forkpty (main_ws (e_getenv env)) pid m] @
              parent_setup env m @ e3 @ e4"
        by (simp_all add: main_def parent_main_def)
      with l d Some False show ?thesis by (intro Draining) simp_all
    next
      case True
      with assms l d t Some have "out = map_option Exit rc"
        "tr = [Sigaction_SIGCHLD, Forkpty (main_ws (e_getenv env)) pid m] @
              parent_setup env m @ e3 @ e4 @ e5"
        by (simp_all add: main_def parent_main_def)
      with l d t Some True show ?thesis by (intro Torn) simp_all
    qed
  qed
qed

lemma main_not_parent:
  fixes tr :: "'t event list"
  assumes "main env = (out, tr)" "e_forkpty env = (pid, m)" "\<not> pid > 0"
  shows "writes fd tr = [] \<and> reads fd tr = []"
  using assms
  by (auto simp: main_def child_main_def Let_def io_simps split: if_splits)

lemma parent_setup_io:
  "writes fd (parent_setup env m) = [] \<and> reads fd (parent_setup env m) = []"
  by (simp add: parent_setup_def Let_def io_simps split: option.splits)

lemma main_io:
  fixes tr :: "'t event list"
  assumes "main env = (out, tr)" and "e_forkpty env = (pid, master)"
    and "master \<noteq> STDIN_FILENO" and "master \<noteq> STDOUT_FILENO"
  shows "writes master tr = map (map (\<lambda>b. if b = 0x0a then 0x0d else b)) (reads STDIN_FILENO tr)
       \<and> writes STDOUT_FILENO tr = reads master tr"
proof (cases "pid > 0")
  case False
  from main_not_parent[OF assms(1,2) False] show ?thesis by simp
next
  case True
  from assms(1,2) True show ?thesis
  proof (cases rule: main_parentE)
    case (Looping e3)
    from relay_loop_io[OF Looping(1) assms(3,4)] Looping(3)
    show ?thesis by (simp add: io_simps parent_setup_io)
  next
    case (Draining s e3 e4)
    from relay_loop_io[OF Draining(1) assms(3,4)] drain_io[OF Draining(2) assms(3,4)] Draining(4)
    show ?thesis by (simp add: io_simps parent_setup_io)
  next
    case (Torn s e3 e4 rc e5)
    from relay_loop_io[OF Torn(1) assms(3,4)] drain_io[OF Torn(2) assms(3,4)]
      teardown_io[OF Torn(3)] Torn(5)
    show ?thesis by (simp add: io_simps parent_setup_io)
  qed
qed

section \<open>Wait statuses\<close>

lemma and_127: "(x::int) AND 0x7f = take_bit 7 x"
  by (simp add: take_bit_eq_mask mask_eq_exp_minus_1)

lemma and_255: "(x::int) AND 0xff = take_bit 8 x"
  by (simp add: take_bit_eq_mask mask_eq_exp_minus_1)

lemma ff00: "(0xff00::int) = push_bit 8 0xff"
  by simp

lemma wifexited_exitcode: "WIFEXITED (W_EXITCODE c 0)"
  by (simp add: WIFEXITED_def WTERMSIG_def W_EXITCODE_def and_127 take_bit_push_bit)

lemma wexitstatus_exitcode:
  assumes "0 \<le> c" "c \<le> 255"
  shows "WEXITSTATUS (W_EXITCODE c 0) = c"
proof -
  have "push_bit 8 c AND (0xff00::int) = push_bit 8 (c AND 0xff)"
    unfolding ff00 by (simp only: push_bit_and)
  moreover have "c AND 0xff = c"
    using assms by (simp add: and_255 take_bit_int_eq_self)
  ultimately have "push_bit 8 c AND (0xff00::int) = push_bit 8 c" by simp
  moreover have "drop_bit 8 (push_bit 8 c) = c"
    by (simp add: drop_bit_eq_div push_bit_eq_mult)
  ultimately show ?thesis
    by (simp add: WEXITSTATUS_def W_EXITCODE_def)
qed

lemma not_wifexited_signal:
  assumes "1 \<le> sig" "sig \<le> 127" "core = 0 \<or> core = 0x80"
  shows "\<not> WIFEXITED (sig OR core)"
proof -
  have "take_bit 7 sig = sig" using assms by (simp add: take_bit_int_eq_self)
  moreover have "take_bit 7 core = (0::int)" using assms(3) by auto
  ultimately have "take_bit 7 (sig OR core) = sig"
    by (simp add: take_bit_or)
  with assms show ?thesis by (simp add: WIFEXITED_def WTERMSIG_def and_127)
qed

section \<open>The handler and the shared pair\<close>

lemma run_handlers_append: "run_handlers (xs @ ys) s = run_handlers ys (run_handlers xs s)"
  by (induction xs arbitrary: s) simp_all

lemma run_handlers_mono: "child_exited s \<noteq> 0 \<Longrightarrow> child_exited (run_handlers ws s) \<noteq> 0"
  by (induction ws arbitrary: s) (simp_all add: sigchld_handler_def)

lemma run_handlers_carry:
  assumes "list_all (\<lambda>w. w_ret w > 0 \<longrightarrow> w_status w = st) ws"
    and "child_exited s \<noteq> 0 \<longrightarrow> child_status s = st"
  shows "child_exited (run_handlers ws s) \<noteq> 0 \<longrightarrow> child_status (run_handlers ws s) = st"
  using assms by (induction ws arbitrary: s) (simp_all add: sigchld_handler_def)

lemma run_handlers_status:
  assumes "list_all (\<lambda>w. w_ret w > 0 \<longrightarrow> w_status w = st) ws" and "child_status s = st"
  shows "child_status (run_handlers ws s) = st"
  using assms by (induction ws arbitrary: s) (simp_all add: sigchld_handler_def)

lemma waits_append: "waits (xs @ ys) = waits xs @ waits ys"
  by (simp add: waits_def)

lemma waits_Cons: "waits (x # xs) = wt_of x @ waits xs"
  by (simp add: waits_def)

lemma waits_Nil: "waits [] = []"
  by (simp add: waits_def)

lemma waits_handler_events:
  "waits (handler_events ws :: 't event list) = map (\<lambda>w. (- 1, WNOHANG, w)) ws"
  by (induction ws) (simp_all add: handler_events_def waits_def wt_of_def)

lemmas waits_simps = waits_append waits_Cons waits_Nil waits_handler_events wt_of_def

lemma loop_body_waits:
  fixes e :: "'t event list"
  assumes "loop_body m it = (c, e)"
  shows "waits e = []"
  using assms
  by (auto simp: loop_body_def stdin_part_def master_part_def Let_def waits_simps
      split: if_splits ctl.splits prod.splits)

lemma relay_loop_handlers:
  fixes e :: "'t event list"
  assumes "relay_loop m s its = (r, e)"
  shows "\<exists>ws. (\<forall>s'. r = Some s' \<longrightarrow> s' = run_handlers ws s) \<and>
              set ws \<subseteq> set (concat (map it_sigs its)) \<and>
              waits e = map (\<lambda>w. (- 1, WNOHANG, w)) ws"
  using assms
proof (induction its arbitrary: s e)
  case Nil
  then show ?case by (intro exI[of _ "[]"]) (simp add: waits_simps)
next
  case (Cons it its)
  from Cons.prems show ?case
  proof (cases rule: relay_loop_ConsE)
    case Exited
    then show ?thesis by (intro exI[of _ "it_sigs it"]) (simp add: waits_simps)
  next
    case (Broke e1)
    with loop_body_waits[OF Broke(2)] show ?thesis
      by (intro exI[of _ "it_sigs it"]) (simp add: waits_simps)
  next
    case (Cont e1 e2)
    from Cons.IH[OF Cont(3)] obtain ws where
      ws: "\<forall>s'. r = Some s' \<longrightarrow> s' = run_handlers ws (run_handlers (it_sigs it) s)"
        "set ws \<subseteq> set (concat (map it_sigs its))"
        "waits e2 = map (\<lambda>w. (- 1, WNOHANG, w)) ws"
      by blast
    with Cont loop_body_waits[OF Cont(2)] show ?thesis
      by (intro exI[of _ "it_sigs it @ ws"]) (auto simp: waits_simps run_handlers_append)
  qed
qed

lemma carry_subset:
  "list_all P xs \<Longrightarrow> set ys \<subseteq> set xs \<Longrightarrow> list_all P ys"
  by (auto simp: list_all_iff)

lemma main_return_rc:
  fixes e :: "'t event list"
  assumes "main_return env s = (rc, e)"
    and "list_all (\<lambda>w. w_ret w > 0 \<longrightarrow> w_status w = st) (e_sigs_ret1 env)"
    and "list_all (\<lambda>w. w_ret w > 0 \<longrightarrow> w_status w = st) (e_sigs_ret2 env)"
    and "child_status s = st"
  shows "rc = (if WIFEXITED st then WEXITSTATUS st else 1)"
proof -
  have 1: "child_status (run_handlers (e_sigs_ret1 env) s) = st"
    using assms(2,4) by (rule run_handlers_status)
  have 2: "child_status (run_handlers (e_sigs_ret2 env) (run_handlers (e_sigs_ret1 env) s)) = st"
    using assms(3) 1 by (rule run_handlers_status)
  from assms(1) 1 2 show ?thesis by (auto simp: main_return_def Let_def)
qed

lemma teardown_rc:
  fixes e :: "'t event list"
  assumes "teardown env pid m orig s = (Some rc, e)"
    and "reaps_carry env st"
    and "child_exited s \<noteq> 0 \<longrightarrow> child_status s = st"
  shows "rc = (if WIFEXITED st then WEXITSTATUS st else 1)"
proof -
  let ?P = "\<lambda>w. w_ret w > 0 \<longrightarrow> w_status w = st"
  from assms(2) have c: "list_all ?P (e_sigs_teardown env)" "list_all ?P (e_sigs_wait env)"
    "list_all ?P (e_sigs_ret1 env)" "list_all ?P (e_sigs_ret2 env)"
    by (simp_all add: reaps_carry_def all_sigs_def)
  let ?s1 = "run_handlers (e_sigs_teardown env) s"
  have i1: "child_exited ?s1 \<noteq> 0 \<longrightarrow> child_status ?s1 = st"
    using c(1) assms(3) by (rule run_handlers_carry)
  show ?thesis
  proof (cases "child_exited ?s1 = 0")
    case True
    with assms(1) obtain w where w: "e_waitpid env = Some w"
      by (auto simp: teardown_def Let_def split: option.splits)
    with assms(2) have ws: "w_status w = st" by (simp add: reaps_carry_def)
    let ?s3 = "(run_handlers (e_sigs_intr env) (run_handlers (e_sigs_wait env) ?s1))\<lparr>child_status := w_status w\<rparr>"
    from assms(1) True w obtain e4 where "main_return env ?s3 = (rc, e4 :: 't event list)"
      by (auto simp: teardown_def Let_def split: prod.splits)
    from main_return_rc[OF this c(3,4)] ws show ?thesis by simp
  next
    case False
    with assms(1) obtain e4 where "main_return env ?s1 = (rc, e4 :: 't event list)"
      by (auto simp: teardown_def Let_def split: prod.splits)
    from main_return_rc[OF this c(3,4)] i1 False show ?thesis by simp
  qed
qed

lemma main_exit_code:
  fixes tr :: "'t event list"
  assumes "main env = (Some out, tr)" and "e_forkpty env = (pid, master)" and "pid > 0"
    and "reaps_carry env st"
  shows "out = Exit (if WIFEXITED st then WEXITSTATUS st else 1)"
  using assms(1-3)
proof (cases rule: main_parentE)
  case (Looping e3)
  then show ?thesis by simp
next
  case (Draining s e3 e4)
  then show ?thesis by simp
next
  case (Torn s e3 e4 rc e5)
  from Torn(4) obtain rc' where rc: "rc = Some rc'" "out = Exit rc'" by (cases rc) auto
  let ?P = "\<lambda>w. w_ret w > 0 \<longrightarrow> w_status w = st"
  from relay_loop_handlers[OF Torn(1)] obtain ws where
    ws: "s = run_handlers ws shared0" "set ws \<subseteq> set (concat (map it_sigs (e_loop env)))"
    by blast
  from assms(4) have "list_all ?P (concat (map it_sigs (e_loop env)))"
    by (simp add: reaps_carry_def all_sigs_def)
  with ws(2) have "list_all ?P ws" by (rule carry_subset[rotated -1])
  then have "child_exited s \<noteq> 0 \<longrightarrow> child_status s = st"
    unfolding ws(1) by (rule run_handlers_carry) (simp add: shared0_def)
  from teardown_rc[OF Torn(3)[unfolded rc(1)] assms(4) this] rc(2) show ?thesis by simp
qed

lemma run_handlers_reap:
  assumes "set ws \<subseteq> H"
    and "child_exited s \<noteq> 0 \<longrightarrow> (\<exists>h\<in>H. w_ret h > 0 \<and> child_status s = w_status h)"
  shows "child_exited (run_handlers ws s) \<noteq> 0 \<longrightarrow>
         (\<exists>h\<in>H. w_ret h > 0 \<and> child_status (run_handlers ws s) = w_status h)"
  using assms
proof (induction ws arbitrary: s)
  case Nil
  then show ?case by simp
next
  case (Cons w ws)
  from Cons.prems have "child_exited (sigchld_handler w s) \<noteq> 0 \<longrightarrow>
      (\<exists>h\<in>H. w_ret h > 0 \<and> child_status (sigchld_handler w s) = w_status h)"
    by (auto simp: sigchld_handler_def)
  with Cons.IH[of "sigchld_handler w s"] Cons.prems(1) show ?case by simp
qed

lemma relay_loop_mono:
  fixes e :: "'t event list"
  assumes "relay_loop m s its = (Some s', e)" "child_exited s \<noteq> 0"
  shows "child_exited s' \<noteq> 0"
proof -
  from relay_loop_handlers[OF assms(1)] obtain ws where "s' = run_handlers ws s" by blast
  with assms(2) show ?thesis by (simp add: run_handlers_mono)
qed

lemma relay_loop_reap:
  fixes e :: "'t event list"
  assumes "relay_loop m s its = (Some s', e)" "child_exited s = 0" "child_exited s' \<noteq> 0"
  shows "\<exists>h. (- 1, WNOHANG, h) \<in> set (waits e) \<and> w_ret h > 0 \<and> child_status s' = w_status h"
proof -
  from relay_loop_handlers[OF assms(1)] obtain ws where
    ws: "s' = run_handlers ws s" "waits e = map (\<lambda>w. (- 1, WNOHANG, w)) ws" by blast
  from run_handlers_reap[of ws "set ws" s] assms(2,3) ws(1)
  obtain h where "h \<in> set ws" "w_ret h > 0" "child_status s' = w_status h" by auto
  with ws(2) show ?thesis by (intro exI[of _ h]) auto
qed

section \<open>Teardown\<close>

lemma tcsets_append: "tcsets (xs @ ys) = tcsets xs @ tcsets ys"
  by (simp add: tcsets_def)
lemma tcsets_Cons: "tcsets (x # xs) = tc_of x @ tcsets xs"
  by (simp add: tcsets_def)
lemma tcsets_Nil: "tcsets [] = []"
  by (simp add: tcsets_def)
lemma closes_append: "closes (xs @ ys) = closes xs @ closes ys"
  by (simp add: closes_def)
lemma closes_Cons: "closes (x # xs) = cl_of x @ closes xs"
  by (simp add: closes_def)
lemma closes_Nil: "closes [] = []"
  by (simp add: closes_def)

lemma handler_events_proj:
  "tcsets (handler_events ws :: 't event list) = []"
  "closes (handler_events ws :: 't event list) = []"
  "filter is_io (handler_events ws :: 't event list) = []"
  by (induction ws)
     (simp_all add: handler_events_def tcsets_def closes_def tc_of_def cl_of_def is_io_def)

lemmas proj_simps = tcsets_append tcsets_Cons tcsets_Nil closes_append closes_Cons closes_Nil
  tc_of_def cl_of_def handler_events_proj

lemma loop_body_proj:
  fixes e :: "'t event list"
  assumes "loop_body m it = (c, e)"
  shows "tcsets e = [] \<and> closes e = []"
  using assms
  by (auto simp: loop_body_def stdin_part_def master_part_def Let_def proj_simps
      split: if_splits ctl.splits prod.splits)

lemma relay_loop_proj:
  fixes e :: "'t event list"
  assumes "relay_loop m s its = (r, e)"
  shows "tcsets e = [] \<and> closes e = []"
  using assms
proof (induction its arbitrary: s e)
  case Nil
  then show ?case by (simp add: proj_simps)
next
  case (Cons it its)
  from Cons.prems show ?case
  proof (cases rule: relay_loop_ConsE)
    case Exited
    then show ?thesis by (simp add: proj_simps)
  next
    case (Broke e1)
    with loop_body_proj[OF Broke(2)] show ?thesis by (simp add: proj_simps)
  next
    case (Cont e1 e2)
    with loop_body_proj[OF Cont(2)] Cons.IH[OF Cont(3)] show ?thesis by (simp add: proj_simps)
  qed
qed

lemma drain_proj:
  fixes e :: "'t event list"
  assumes "drain m rs = (left, e)"
  shows "tcsets e = [] \<and> closes e = [] \<and> waits e = []"
  using assms
proof (induction rs arbitrary: e)
  case Nil
  then show ?case by (simp add: proj_simps waits_simps)
next
  case (Cons r rs)
  from Cons.prems show ?case
  proof (cases rule: drain_ConsE)
    case Stop
    then show ?thesis by (simp add: proj_simps waits_simps)
  next
    case (Fwd e')
    with Cons.IH[OF Fwd(2)] show ?thesis by (simp add: proj_simps waits_simps)
  qed
qed

lemma drain_total:
  assumes "list_ex (\<lambda>r. rd_n r \<le> 0) rs"
  shows "\<exists>e :: 't event list. drain m rs = (True, e)"
  using assms
proof (induction rs)
  case Nil
  then show ?case by simp
next
  case (Cons r rs)
  show ?case
  proof (cases "rd_n r \<le> 0")
    case True
    then show ?thesis by simp
  next
    case False
    with Cons obtain e :: "'t event list" where "drain m rs = (True, e)" by auto
    with False show ?thesis by simp
  qed
qed

lemma teardown_events:
  fixes e5 :: "'t event list"
  assumes "teardown env pid m orig s = (rc, e5)"
  shows "e5 = Close m #
              (case orig of
                 Some a \<Rightarrow> [Tcsetattr STDIN_FILENO TCSANOW a (e_tcset_restore_ok env)]
               | None \<Rightarrow> []) @ teardown_tail env pid s"
    and "rc = None \<longleftrightarrow>
         child_exited (run_handlers (e_sigs_teardown env) s) = 0 \<and> e_waitpid env = None"
  using assms
  by (auto simp: teardown_def teardown_tail_def main_return_def Let_def
      split: if_splits option.splits prod.splits)

lemma teardown_tail_proj:
  "tcsets (teardown_tail env pid s) = []" "closes (teardown_tail env pid s) = []"
  "filter is_io (teardown_tail env pid s) = []"
  by (auto simp: teardown_tail_def proj_simps is_io_def split: option.splits)

lemma parent_setup_proj:
  "tcsets (parent_setup env m) =
     (case e_tcgetattr env of
        Some a \<Rightarrow> [(STDIN_FILENO, TCSANOW, e_cfmakeraw env a, e_tcset_raw_ok env)]
      | None \<Rightarrow> [])"
  "closes (parent_setup env m) = []"
  by (auto simp: parent_setup_def Let_def proj_simps split: option.splits)

lemma main_parentI:
  fixes e3 :: "'t event list"
  assumes "e_forkpty env = (pid, m)" "pid > 0"
    and "relay_loop m shared0 (e_loop env) = (Some s, e3)"
    and "drain m (e_drain env) = (True, e4)"
    and "teardown env pid m (e_tcgetattr env) s = (Some rc, e5)"
  shows "main env = (Some (Exit rc), [Sigaction_SIGCHLD, Forkpty (main_ws (e_getenv env)) pid m] @
          parent_setup env m @ e3 @ e4 @ e5)"
  using assms by (simp add: main_def parent_main_def)

lemma console_after_two:
  "tcsets tr = [(STDIN_FILENO, act1, r, ok1), (STDIN_FILENO, act2, a, ok2)] \<Longrightarrow>
   ok2 \<or> \<not> ok1 \<Longrightarrow> console_after a tr = a"
  by (auto simp: console_after_def)

lemma console_after_none: "tcsets tr = [] \<Longrightarrow> console_after c tr = c"
  by (simp add: console_after_def)

lemma waits_proj_setup:
  "waits ([Sigaction_SIGCHLD, Forkpty ws pid m] @ parent_setup env m) = []"
  by (simp add: parent_setup_def Let_def waits_simps split: option.splits)

lemma blocking_handler_events:
  "filter (\<lambda>(p, opt, w). opt = 0) (map (\<lambda>w. (- 1, WNOHANG, w)) ws) = []"
  by (induction ws) (simp_all add: WNOHANG_def)

section \<open>Terminal dimensions\<close>

lemma digits_val_nodigit: "(case s of [] \<Rightarrow> True | d # ds \<Rightarrow> \<not> isdigit d) \<Longrightarrow> digits_val a s = a"
  by (cases s) auto

lemma atoi_no_number:
  assumes "no_number s"
  shows "atoi s = 0"
proof -
  have "strtol10 s = 0"
  proof (cases "dropWhile isspace s")
    case Nil
    show ?thesis unfolding strtol10_def Nil by simp
  next
    case (Cons c cs)
    from assms have n: "if c = CHR ''-'' \<or> c = CHR ''+''
        then (case cs of [] \<Rightarrow> True | d # ds \<Rightarrow> \<not> isdigit d) else \<not> isdigit c"
      unfolding no_number_def Cons by simp
    show ?thesis
    proof (cases "c = CHR ''-'' \<or> c = CHR ''+''")
      case True
      with n have "digits_val 0 cs = 0" by (intro digits_val_nodigit) simp
      with True show ?thesis unfolding strtol10_def Cons
        by (auto simp: LONG_MIN_def LONG_MAX_def)
    next
      case False
      with n have "digits_val 0 (c # cs) = 0" by simp
      with False show ?thesis unfolding strtol10_def Cons
        by (simp add: LONG_MAX_def del: digits_val.simps)
    qed
  qed
  then show ?thesis by (simp add: atoi_def)
qed

lemma atoi_50: "atoi ''50'' = 50" by code_simp
lemma atoi_120: "atoi ''120'' = 120" by code_simp

section \<open>The example runs, evaluated\<close>

lemma main_env1: "main env1 = (Some (Exit 7), trace1)"
  by code_simp

lemma main_env2: "main env2 = (Some (Exit 1), trace2)"
  by code_simp

lemma main_env_running: "main env_running = (None, trace_running)"
  by code_simp

lemma main_env_nofork:
  "main env_nofork =
     (Some (Exit 1), [Sigaction_SIGCHLD,
                      Forkpty \<lparr>ws_row = 24, ws_col = 80, ws_xpixel = 0, ws_ypixel = 0\<rparr> (- 1) 0,
                      Perror ''forkpty''])"
  by code_simp

section \<open>The two directions of the relay\<close>

text \<open>
  Claim C1. The loop of lines 124-127 replaces each line-feed byte (0x0a) of the chunk by
  a carriage-return byte (0x0d) and leaves every other byte, carriage returns included,
  as it is. In every run of the relay, finished or not, the chunks written to the PTY
  master are, in order, the chunks read from standard input so converted: the same
  number of chunks, each of the same length, byte by byte.
\<close>

theorem C1_stdin_lf_to_cr:
  fixes tr :: "'t event list"
  assumes "main env = (out, tr)" and "e_forkpty env = (pid, master)"
    and "master \<noteq> STDIN_FILENO" and "master \<noteq> STDOUT_FILENO"
  shows "conv_loop 0 (length bs) bs = map (\<lambda>b. if b = 0x0a then 0x0d else b) bs \<and>
         writes master tr =
         map (map (\<lambda>b. if b = 0x0a then 0x0d else b)) (reads STDIN_FILENO tr)"
  using main_io[OF assms] by (simp add: conv_loop_map)

text \<open>
  The run \<open>env1\<close>: the typed line \<^verbatim>\<open>ls\<close> with its line feed reaches the master with a
  carriage return; so it does in the run that is still in its loop.
\<close>

theorem C1_stdin_lf_to_cr_witness:
  "main env1 = (Some (Exit 7), trace1) \<and> e_forkpty env1 = (42, 3) \<and>
   reads STDIN_FILENO trace1 = [[0x6c, 0x73, 0x0a]] \<and>
   writes 3 trace1 = [[0x6c, 0x73, 0x0d]] \<and>
   main env_running = (None, trace_running) \<and>
   writes 3 trace_running = [[0x6c, 0x73, 0x0d]] \<and>
   conv_loop 0 4 [0x0d, 0x0a, 0x0a, 0x41] = [0x0d, 0x0d, 0x0d, 0x41]"
proof -
  have fk: "e_forkpty env1 = (42, 3)" by (simp add: env1_def)
  have fk': "e_forkpty env_running = (42, 3)" by (simp add: env_running_def env1_def)
  have d: "(3::int) \<noteq> STDIN_FILENO" "(3::int) \<noteq> STDOUT_FILENO"
    by (simp_all add: STDIN_FILENO_def STDOUT_FILENO_def)
  have r: "reads STDIN_FILENO trace1 = [[0x6c, 0x73, 0x0a]]" by code_simp
  have r': "reads STDIN_FILENO trace_running = [[0x6c, 0x73, 0x0a]]" by code_simp
  define xs :: "byte list" where "xs = [0x0d, 0x0a, 0x0a, 0x41]"
  have l: "length xs = 4" "map (\<lambda>b. if b = 0x0a then 0x0d else b) xs = [0x0d, 0x0d, 0x0d, 0x41]"
    by (simp_all add: xs_def)
  note c1 = C1_stdin_lf_to_cr[OF main_env1 fk d, of xs]
  from c1 r have 1: "writes 3 trace1 = [[0x6c, 0x73, 0x0d]]" by simp
  from c1 have "conv_loop 0 (length xs) xs = map (\<lambda>b. if b = 0x0a then 0x0d else b) xs"
    by (rule conjunct1)
  then have "conv_loop 0 4 xs = [0x0d, 0x0d, 0x0d, 0x41]" unfolding l .
  then have 3: "conv_loop 0 4 [0x0d, 0x0a, 0x0a, 0x41] = [0x0d, 0x0d, 0x0d, 0x41]"
    unfolding xs_def .
  from C1_stdin_lf_to_cr[OF main_env_running fk' d, of "[]"] r'
  have 2: "writes 3 trace_running = [[0x6c, 0x73, 0x0d]]" by simp
  from main_env1 fk r 1 main_env_running 2 3 show ?thesis by simp
qed

text \<open>
  Claim C4. In every run of the relay, finished or not, the chunks written to standard
  output are exactly the chunks read from the PTY master, in the loop and in the drain,
  in order and byte for byte.
\<close>

theorem C4_master_to_stdout:
  fixes tr :: "'t event list"
  assumes "main env = (out, tr)" and "e_forkpty env = (pid, master)"
    and "master \<noteq> STDIN_FILENO" and "master \<noteq> STDOUT_FILENO"
  shows "writes STDOUT_FILENO tr = reads master tr"
  using main_io[OF assms] by simp

text \<open>The run \<open>env1\<close>: the child's answer and the drained byte reach standard output as read.\<close>

theorem C4_master_to_stdout_witness:
  "main env1 = (Some (Exit 7), trace1) \<and> e_forkpty env1 = (42, 3) \<and>
   reads 3 trace1 = [[0x6f, 0x6b, 0x0d, 0x0a], [0x21]] \<and>
   writes STDOUT_FILENO trace1 = [[0x6f, 0x6b, 0x0d, 0x0a], [0x21]]"
proof -
  have fk: "e_forkpty env1 = (42, 3)" by (simp add: env1_def)
  have r: "reads 3 trace1 = [[0x6f, 0x6b, 0x0d, 0x0a], [0x21]]" by code_simp
  have "writes STDOUT_FILENO trace1 = reads 3 trace1"
    by (rule C4_master_to_stdout[OF main_env1 fk]) (simp_all add: STDIN_FILENO_def STDOUT_FILENO_def)
  with main_env1 fk r show ?thesis by simp
qed

section \<open>The allocated size\<close>

text \<open>
  Claim C6 (as the code has it). When a row or column variable is absent, the dimension
  passed to \<^verbatim>\<open>forkpty\<close> is the default, 24 rows and 80 columns. When the variable is set,
  the dimension is \<^verbatim>\<open>(unsigned short) atoi(value)\<close>, whatever the value: a value that does
  not start with a number gives 0, not the default. The values \<^verbatim>\<open>50\<close> and \<^verbatim>\<open>120\<close> give 50
  and 120. The window size so computed is the one the run passes to \<^verbatim>\<open>forkpty\<close>.
\<close>

theorem C6_term_size:
  fixes tr :: "'t event list"
  shows "(getenv ''WRAPIX_TERM_ROWS'' = None \<longrightarrow> ws_row (main_ws getenv) = 24) \<and>
   (getenv ''WRAPIX_TERM_COLS'' = None \<longrightarrow> ws_col (main_ws getenv) = 80) \<and>
   (\<forall>r. getenv ''WRAPIX_TERM_ROWS'' = Some r \<longrightarrow> ws_row (main_ws getenv) = word_of_int (atoi r)) \<and>
   (\<forall>c. getenv ''WRAPIX_TERM_COLS'' = Some c \<longrightarrow> ws_col (main_ws getenv) = word_of_int (atoi c)) \<and>
   (\<forall>v. no_number v \<longrightarrow> atoi v = 0) \<and>
   atoi ''50'' = 50 \<and> atoi ''120'' = 120 \<and>
   (e_forkpty env = (pid, master) \<and> main env = (out, tr) \<longrightarrow>
    (\<exists>rest. tr = Sigaction_SIGCHLD # Forkpty (main_ws (e_getenv env)) pid master # rest))"
proof -
  have "\<exists>rest. tr = Sigaction_SIGCHLD # Forkpty (main_ws (e_getenv env)) pid master # rest"
    if "e_forkpty env = (pid, master)" "main env = (out, tr)"
    using that by (auto simp: main_def Let_def split: if_splits prod.splits)
  then show ?thesis
    by (simp add: main_ws_def main_rows_def main_cols_def atoi_no_number atoi_50 atoi_120)
qed

text \<open>
  Claim C6 as stated fails: with both variables set to values that are no numbers, the
  allocated size is 0 by 0 and not 24 by 80.
\<close>

theorem C6_counterexample:
  "no_number ''abc'' \<and> no_number ''wide'' \<and>
   main_ws [''WRAPIX_TERM_ROWS'' \<mapsto> ''abc'', ''WRAPIX_TERM_COLS'' \<mapsto> ''wide''] =
     \<lparr>ws_row = 0, ws_col = 0, ws_xpixel = 0, ws_ypixel = 0\<rparr> \<and>
   main_ws [''WRAPIX_TERM_ROWS'' \<mapsto> ''abc'', ''WRAPIX_TERM_COLS'' \<mapsto> ''wide''] \<noteq>
     \<lparr>ws_row = 24, ws_col = 80, ws_xpixel = 0, ws_ypixel = 0\<rparr>"
  by code_simp

text \<open>The three kinds of value, and the run \<open>env1\<close>.\<close>

theorem C6_term_size_witness:
  "main_ws [''WRAPIX_TERM_ROWS'' \<mapsto> ''50'', ''WRAPIX_TERM_COLS'' \<mapsto> ''120''] =
     \<lparr>ws_row = 50, ws_col = 120, ws_xpixel = 0, ws_ypixel = 0\<rparr> \<and>
   main_ws Map.empty = \<lparr>ws_row = 24, ws_col = 80, ws_xpixel = 0, ws_ypixel = 0\<rparr> \<and>
   no_number ''abc'' \<and> atoi ''abc'' = 0 \<and>
   ws_row (main_ws [''WRAPIX_TERM_ROWS'' \<mapsto> ''abc'']) = 0 \<and>
   ws_col (main_ws [''WRAPIX_TERM_ROWS'' \<mapsto> ''abc'']) = 80 \<and>
   main env1 = (Some (Exit 7), trace1) \<and>
   hd (tl trace1) = Forkpty (main_ws (e_getenv env1)) 42 3"
proof -
  note c = C6_term_size[where getenv = "[''WRAPIX_TERM_ROWS'' \<mapsto> ''abc'']" and env = env1 and pid = 42
      and master = 3 and out = "Some (Exit 7)" and tr = trace1]
  have n: "no_number ''abc''" by code_simp
  have fk: "e_forkpty env1 = (42, 3)" by (simp add: env1_def)
  from c n have a: "atoi ''abc'' = 0" by blast
  from c have r: "ws_row (main_ws [''WRAPIX_TERM_ROWS'' \<mapsto> ''abc'']) = word_of_int (atoi ''abc'')"
    by simp
  from c have cl: "ws_col (main_ws [''WRAPIX_TERM_ROWS'' \<mapsto> ''abc'']) = 80"
    by simp
  from c fk main_env1 obtain rest where "trace1 = Sigaction_SIGCHLD # Forkpty (main_ws (e_getenv env1)) 42 3 # rest"
    by blast
  then have t: "hd (tl trace1) = Forkpty (main_ws (e_getenv env1)) 42 3"
    by (metis list.sel(1) list.sel(3))
  have w1: "main_ws [''WRAPIX_TERM_ROWS'' \<mapsto> ''50'', ''WRAPIX_TERM_COLS'' \<mapsto> ''120''] =
     \<lparr>ws_row = 50, ws_col = 120, ws_xpixel = 0, ws_ypixel = 0\<rparr>" by code_simp
  have w2: "main_ws Map.empty = \<lparr>ws_row = 24, ws_col = 80, ws_xpixel = 0, ws_ypixel = 0\<rparr>" by code_simp
  from w1 w2 n a r cl t main_env1 show ?thesis by simp
qed

section \<open>The \<^verbatim>\<open>ioctl\<close> wrapper\<close>

text \<open>
  Claim C7 (as the code has it). The wrapper forwards every call to the real \<^verbatim>\<open>ioctl\<close>.
  For a request other than \<^verbatim>\<open>TIOCGWINSZ\<close> it returns the result as it is. For
  \<^verbatim>\<open>TIOCGWINSZ\<close> it returns the result as it is when the real call succeeded with a row or
  a column count that is not zero; when the real call failed, or succeeded with both
  counts zero, it returns 0 and overwrites the row count and the column count, each only
  when its variable is set, with \<^verbatim>\<open>(unsigned short) atoi(value)\<close>, leaving everything else
  in the structure as the real call left it.
\<close>

theorem C7_ioctl_wrapper:
  assumes "real_ioctl fd request arg = (ret, ws)"
  shows "(request \<noteq> TIOCGWINSZ \<longrightarrow> ioctl getenv real_ioctl fd request arg = (ret, ws)) \<and>
         (request = TIOCGWINSZ \<and> ret = 0 \<and> \<not> (ws_row ws = 0 \<and> ws_col ws = 0) \<longrightarrow>
            ioctl getenv real_ioctl fd request arg = (ret, ws)) \<and>
         (request = TIOCGWINSZ \<and> (ret \<noteq> 0 \<or> (ws_row ws = 0 \<and> ws_col ws = 0)) \<longrightarrow>
            ioctl getenv real_ioctl fd request arg =
              (0, ws\<lparr>ws_row := (case getenv ''WRAPIX_TERM_ROWS'' of
                                  None \<Rightarrow> ws_row ws | Some r \<Rightarrow> word_of_int (atoi r)),
                      ws_col := (case getenv ''WRAPIX_TERM_COLS'' of
                                  None \<Rightarrow> ws_col ws | Some c \<Rightarrow> word_of_int (atoi c))\<rparr>))"
  using assms by (auto simp: ioctl_def Let_def split: option.splits)

text \<open>
  Claim C7 as stated fails: the real call fails (\<open>- 1\<close>) with dimensions 30 by 100 in the
  structure, which are not all zero, and the wrapper still overwrites them and reports
  success.
\<close>

theorem C7_counterexample:
  "ioctl [''WRAPIX_TERM_ROWS'' \<mapsto> ''50'', ''WRAPIX_TERM_COLS'' \<mapsto> ''120'']
     (\<lambda>fd request arg. (- 1, arg)) 0 TIOCGWINSZ
     \<lparr>ws_row = 30, ws_col = 100, ws_xpixel = 0, ws_ypixel = 0\<rparr> =
   (0, \<lparr>ws_row = 50, ws_col = 120, ws_xpixel = 0, ws_ypixel = 0\<rparr>)"
  by code_simp

text \<open>
  A zero size with only the row variable set, a size that is not zero, and another
  request (\<^verbatim>\<open>TCGETS\<close>) that fails.
\<close>

theorem C7_ioctl_wrapper_witness:
  "ioctl [''WRAPIX_TERM_ROWS'' \<mapsto> ''50''] (\<lambda>fd request arg. (0, arg)) 0 TIOCGWINSZ
     \<lparr>ws_row = 0, ws_col = 0, ws_xpixel = 7, ws_ypixel = 9\<rparr> =
   (0, \<lparr>ws_row = 50, ws_col = 0, ws_xpixel = 7, ws_ypixel = 9\<rparr>) \<and>
   ioctl [''WRAPIX_TERM_ROWS'' \<mapsto> ''50''] (\<lambda>fd request arg. (0, arg)) 0 TIOCGWINSZ
     \<lparr>ws_row = 30, ws_col = 100, ws_xpixel = 7, ws_ypixel = 9\<rparr> =
   (0, \<lparr>ws_row = 30, ws_col = 100, ws_xpixel = 7, ws_ypixel = 9\<rparr>) \<and>
   ioctl [''WRAPIX_TERM_ROWS'' \<mapsto> ''50''] (\<lambda>fd request arg. (- 1, arg)) 0 0x5401
     \<lparr>ws_row = 0, ws_col = 0, ws_xpixel = 7, ws_ypixel = 9\<rparr> =
   (- 1, \<lparr>ws_row = 0, ws_col = 0, ws_xpixel = 7, ws_ypixel = 9\<rparr>)"
proof -
  let ?g = "[''WRAPIX_TERM_ROWS'' \<mapsto> ''50'']"
  have a: "atoi ''50'' = 50" by code_simp
  note 1 = C7_ioctl_wrapper[where real_ioctl = "\<lambda>fd request arg. (0, arg)" and fd = 0
      and request = TIOCGWINSZ and arg = "\<lparr>ws_row = 0, ws_col = 0, ws_xpixel = 7, ws_ypixel = 9\<rparr>"
      and ret = 0 and ws = "\<lparr>ws_row = 0, ws_col = 0, ws_xpixel = 7, ws_ypixel = 9\<rparr>" and getenv = ?g]
  note 2 = C7_ioctl_wrapper[where real_ioctl = "\<lambda>fd request arg. (0, arg)" and fd = 0
      and request = TIOCGWINSZ and arg = "\<lparr>ws_row = 30, ws_col = 100, ws_xpixel = 7, ws_ypixel = 9\<rparr>"
      and ret = 0 and ws = "\<lparr>ws_row = 30, ws_col = 100, ws_xpixel = 7, ws_ypixel = 9\<rparr>" and getenv = ?g]
  note 3 = C7_ioctl_wrapper[where real_ioctl = "\<lambda>fd request arg. (- 1, arg)" and fd = 0
      and request = "0x5401" and arg = "\<lparr>ws_row = 0, ws_col = 0, ws_xpixel = 7, ws_ypixel = 9\<rparr>"
      and ret = "- 1" and ws = "\<lparr>ws_row = 0, ws_col = 0, ws_xpixel = 7, ws_ypixel = 9\<rparr>" and getenv = ?g]
  from 1 2 3 a show ?thesis by (simp add: TIOCGWINSZ_def)
qed

section \<open>Interrupted calls\<close>




section \<open>The exit status\<close>

lemma main_forkpty_failure:
  assumes "e_forkpty env = (pid, master)" and "pid < 0"
  shows "main env = (Some (Exit 1), [Sigaction_SIGCHLD, Forkpty (main_ws (e_getenv env)) pid master,
                                     Perror ''forkpty''])"
  using assms by (simp add: main_def)

lemma child_exec_failure:
  assumes "e_forkpty env = (pid, master)" and "pid = 0" and "\<not> e_exec_ok env"
  shows "main env =
         (Some (Exit 127),
          [Sigaction_SIGCHLD, Forkpty (main_ws (e_getenv env)) pid master,
           if int (length (e_argv env)) > 1 then Execvp (e_argv env ! 1) (tl (e_argv env))
           else Execv ''/krun-init.sh'' [''/krun-init.sh''],
           Perror ''exec''])"
  using assms by (simp add: main_def child_main_def Let_def)

text \<open>
  Lines 159-165 when the flag is read as zero: the status \<^verbatim>\<open>main\<close> decodes is what the
  blocking wait left in \<^verbatim>\<open>status\<close>, whatever the wait returned and whatever a handler
  recorded while the wait was being made (here with no handler invocation after line 162).
\<close>

lemma teardown_unchecked_wait:
  assumes "child_exited (run_handlers (e_sigs_teardown env) s) = 0"
    and "e_waitpid env = Some w" and "e_sigs_ret1 env = []" and "e_sigs_ret2 env = []"
  shows "fst (teardown env pid m orig s :: int option \<times> 't event list) =
         Some (if WIFEXITED (w_status w) then WEXITSTATUS (w_status w) else 1)"
  using assms by (simp add: teardown_def main_return_def Let_def)

text \<open>
  The runs \<open>env_race st g\<close>: the value \<^verbatim>\<open>main\<close> returns is decoded from \<open>g\<close>, the content of
  the variable that was never initialised, and does not depend on the status \<open>st\<close> with
  which the child terminated.
\<close>

lemma main_env_race:
  "main (env_race st g) =
     (Some (Exit (if WIFEXITED g then WEXITSTATUS g else 1)), trace_race st g)"
proof -
  let ?env = "env_race st g"
  have f: "e_forkpty ?env = (42, 3)" by (simp add: env_race_def env2_def)
  have p: "(0::int) < 42" by simp
  have "relay_loop 3 shared0 (e_loop env2) =
      (Some shared0, [Poll \<lparr>p_ret = 1, p_errno = 0, rev_stdin = 1, rev_master = 0\<rparr>,
                      Read 0 (Rd [])] :: tattr event list)"
    by code_simp
  then have l: "relay_loop 3 shared0 (e_loop ?env) =
      (Some shared0, [Poll \<lparr>p_ret = 1, p_errno = 0, rev_stdin = 1, rev_master = 0\<rparr>,
                      Read 0 (Rd [])] :: tattr event list)"
    by (simp add: env_race_def)
  have d: "drain 3 (e_drain ?env) = (True, [Read 3 (RdErr 11)] :: tattr event list)"
    by (simp add: env_race_def env2_def)
  have t: "teardown ?env 42 3 (e_tcgetattr ?env) shared0 =
      (Some (if WIFEXITED g then WEXITSTATUS g else 1),
       [Close 3, Waitpid (- 1) 1 \<lparr>w_ret = 42, w_status = st\<rparr>,
        Waitpid 42 0 \<lparr>w_ret = - 1, w_status = g\<rparr>] :: tattr event list)"
    by (simp add: teardown_def main_return_def env_race_def env2_def Let_def shared0_def
        sigchld_handler_def handler_events_def WNOHANG_def)
  have ws: "main_ws (e_getenv ?env) = \<lparr>ws_row = 24, ws_col = 80, ws_xpixel = 0, ws_ypixel = 0\<rparr>"
    by (simp add: env_race_def env2_def main_ws_def main_rows_def main_cols_def)
  have s: "parent_setup ?env 3 = [Tcgetattr 0 None, Fcntl_GETFL 3 (- 1)]"
    by (simp add: parent_setup_def env_race_def env2_def Let_def STDIN_FILENO_def)
  from main_parentI[OF f p l d t] show ?thesis
    by (simp add: ws s trace_race_def)
qed

text \<open>
  Claim C2. The exit status of the relay is the child's exit code when the child exits
  normally, and 1 when the child is killed by a signal. The code misses this in the runs
  \<open>env_race st 0\<close>. Line 159 reads the flag as zero; the child terminates and the handler
  reaps it, recording its wait status (\<open>0x0700\<close>, exit code 7, in the first run; 9, killed
  by signal 9, in the second); the blocking wait of line 161 then fails, its return value
  is not looked at, and line 162 overwrites the recorded status with the content of
  \<^verbatim>\<open>status\<close>. \<^verbatim>\<open>main\<close> returns 0 in both runs, not 7 and not 1.
\<close>

theorem C2_exit_status_race:
  "run_handlers (e_sigs_wait (env_race 0x0700 0)) shared0 = \<lparr>child_exited = 1, child_status = 0x0700\<rparr> \<and>
   WIFEXITED 0x0700 \<and> WEXITSTATUS 0x0700 = 7 \<and>
   main (env_race 0x0700 0) = (Some (Exit 0), trace_race 0x0700 0) \<and>
   run_handlers (e_sigs_wait (env_race 9 0)) shared0 = \<lparr>child_exited = 1, child_status = 9\<rparr> \<and>
   \<not> WIFEXITED 9 \<and>
   main (env_race 9 0) = (Some (Exit 0), trace_race 9 0)"
proof -
  have 1: "run_handlers (e_sigs_wait (env_race 0x0700 0)) shared0 =
           \<lparr>child_exited = 1, child_status = 0x0700\<rparr>" by code_simp
  have 2: "WIFEXITED 0x0700" "WEXITSTATUS 0x0700 = 7" by code_simp+
  have 3: "main (env_race 0x0700 0) = (Some (Exit 0), trace_race 0x0700 0)" by code_simp
  have 4: "run_handlers (e_sigs_wait (env_race 9 0)) shared0 = \<lparr>child_exited = 1, child_status = 9\<rparr>"
    by code_simp
  have 5: "\<not> WIFEXITED 9" by code_simp
  have 6: "main (env_race 9 0) = (Some (Exit 0), trace_race 9 0)" by code_simp
  from 1 2 3 4 5 6 show ?thesis by simp
qed

text \<open>
  Claim C10. A child whose \<^verbatim>\<open>exec\<close> fails prints the error and exits with code 127 (the run
  \<open>env_noexec\<close>). When the handler has recorded that status and the loop sees the flag,
  the relay exits with 127 (the run \<open>env_127\<close>). The code misses the claim in the run
  \<open>env_race 0x7f00 0\<close>: the handler reaps the child between line 159 and line 161, the
  blocking wait fails, line 162 overwrites the recorded status with the content of
  \<^verbatim>\<open>status\<close>, and \<^verbatim>\<open>main\<close> returns 0, not 127.
\<close>

theorem C10_exec_failure_race:
  "main env_noexec =
     (Some (Exit 127),
      [Sigaction_SIGCHLD,
       Forkpty \<lparr>ws_row = 50, ws_col = 120, ws_xpixel = 0, ws_ypixel = 0\<rparr> 0 3,
       Execvp ''/bin/sh'' [''/bin/sh''], Perror ''exec'']) \<and>
   WIFEXITED 0x7f00 \<and> WEXITSTATUS 0x7f00 = 127 \<and>
   main env_127 = (Some (Exit 127), trace_127) \<and>
   run_handlers (e_sigs_wait (env_race 0x7f00 0)) shared0 = \<lparr>child_exited = 1, child_status = 0x7f00\<rparr> \<and>
   main (env_race 0x7f00 0) = (Some (Exit 0), trace_race 0x7f00 0)"
proof -
  have 1: "main env_noexec =
     (Some (Exit 127),
      [Sigaction_SIGCHLD,
       Forkpty \<lparr>ws_row = 50, ws_col = 120, ws_xpixel = 0, ws_ypixel = 0\<rparr> 0 3,
       Execvp ''/bin/sh'' [''/bin/sh''], Perror ''exec''])" by code_simp
  have 2: "WIFEXITED 0x7f00" "WEXITSTATUS 0x7f00 = 127" by code_simp+
  have 3: "main env_127 = (Some (Exit 127), trace_127)" by code_simp
  have 4: "run_handlers (e_sigs_wait (env_race 0x7f00 0)) shared0 =
           \<lparr>child_exited = 1, child_status = 0x7f00\<rparr>" by code_simp
  have 5: "main (env_race 0x7f00 0) = (Some (Exit 0), trace_race 0x7f00 0)" by code_simp
  from 1 2 3 4 5 show ?thesis by simp
qed

section \<open>Restoring the console\<close>

text \<open>
  Claim C3. In every run of the parent whose capture of the console's attributes
  succeeded with the snapshot \<open>a\<close>: as long as the master is not closed (the run is in its
  loop or in the drain) the only call of \<^verbatim>\<open>tcsetattr\<close> is the one that sets raw mode; once
  the master is closed the calls are exactly two, the second being the restore of \<open>a\<close>,
  made right after the close, with no I/O and no other \<^verbatim>\<open>tcsetattr\<close> after it. A run that
  returns, by whichever way its loop ended, has closed the master, so it has restored \<open>a\<close>
  exactly once, and the console's attributes after it are \<open>a\<close> (the restore takes effect,
  or the change to raw mode had not taken effect either). When the capture failed, the
  run never calls \<^verbatim>\<open>tcsetattr\<close> and the console's attributes are what they were.
\<close>

theorem C3_restore_once:
  fixes tr :: "'t event list"
  assumes "main env = (out, tr)" and "e_forkpty env = (pid, master)" and "pid > 0"
  shows
   "(\<forall>a. e_tcgetattr env = Some a \<longrightarrow>
       (closes tr = [] \<longrightarrow>
          out = None \<and>
          tcsets tr = [(STDIN_FILENO, TCSANOW, e_cfmakeraw env a, e_tcset_raw_ok env)]) \<and>
       (closes tr \<noteq> [] \<longrightarrow>
          tcsets tr = [(STDIN_FILENO, TCSANOW, e_cfmakeraw env a, e_tcset_raw_ok env),
                       (STDIN_FILENO, TCSANOW, a, e_tcset_restore_ok env)] \<and>
          (\<exists>pre post.
             tr = pre @ [Close master, Tcsetattr STDIN_FILENO TCSANOW a (e_tcset_restore_ok env)] @ post \<and>
             closes pre = [] \<and> tcsets post = [] \<and> filter is_io post = [])) \<and>
       (out \<noteq> None \<longrightarrow>
          closes tr \<noteq> [] \<and>
          (e_tcset_restore_ok env \<or> \<not> e_tcset_raw_ok env \<longrightarrow> console_after a tr = a))) \<and>
    (e_tcgetattr env = None \<longrightarrow> tcsets tr = [] \<and> (\<forall>c. console_after c tr = c))"
proof -
  let ?raw = "\<lambda>a. (STDIN_FILENO, TCSANOW, e_cfmakeraw env a, e_tcset_raw_ok env)"
  let ?res = "\<lambda>a. (STDIN_FILENO, TCSANOW, a, e_tcset_restore_ok env)"
  let ?pre0 = "[Sigaction_SIGCHLD, Forkpty (main_ws (e_getenv env)) pid master]"
  have running: ?thesis
    if tr: "tr = ?pre0 @ parent_setup env master @ e" and e: "tcsets e = []" "closes e = []"
      and out: "out = None" for e
  proof -
    from tr e have c: "closes tr = []" by (simp add: proj_simps parent_setup_proj)
    from tr e have t: "tcsets tr = (case e_tcgetattr env of Some a \<Rightarrow> [?raw a] | None \<Rightarrow> [])"
      by (simp add: proj_simps parent_setup_proj)
    from c t out show ?thesis by (auto simp: console_after_none)
  qed
  from assms show ?thesis
  proof (cases rule: main_parentE)
    case (Looping e3)
    from relay_loop_proj[OF Looping(1)] Looping(2,3) show ?thesis
      by (intro running[of e3]) simp_all
  next
    case (Draining s e3 e4)
    from relay_loop_proj[OF Draining(1)] drain_proj[OF Draining(2)] Draining(3,4) show ?thesis
      by (intro running[of "e3 @ e4"]) (simp_all add: proj_simps)
  next
    case (Torn s e3 e4 rc e5)
    note td = teardown_events(1)[OF Torn(3)]
    note lp = relay_loop_proj[OF Torn(1)]
    note dr = drain_proj[OF Torn(2)]
    let ?pre = "?pre0 @ parent_setup env master @ e3 @ e4"
    have cl: "closes tr \<noteq> []"
      using Torn(5) td by (simp add: proj_simps)
    have none: "tcsets tr = [] \<and> (\<forall>c. console_after c tr = c)" if n: "e_tcgetattr env = None"
    proof -
      from Torn(5) td lp dr n have "tcsets tr = []"
        by (simp add: proj_simps parent_setup_proj teardown_tail_proj)
      then show ?thesis by (simp add: console_after_none)
    qed
    have some: "tcsets tr = [?raw a, ?res a] \<and>
         (\<exists>pre post.
            tr = pre @ [Close master, Tcsetattr STDIN_FILENO TCSANOW a (e_tcset_restore_ok env)] @ post \<and>
            closes pre = [] \<and> tcsets post = [] \<and> filter is_io post = []) \<and>
         (e_tcset_restore_ok env \<or> \<not> e_tcset_raw_ok env \<longrightarrow> console_after a tr = a)"
      if a: "e_tcgetattr env = Some a" for a
    proof -
      from Torn(5) td lp dr a have t: "tcsets tr = [?raw a, ?res a]"
        by (simp add: proj_simps parent_setup_proj teardown_tail_proj)
      from Torn(5) td a
      have "tr = ?pre @ [Close master, Tcsetattr STDIN_FILENO TCSANOW a (e_tcset_restore_ok env)] @
          teardown_tail env pid s" by simp
      moreover from lp dr have "closes ?pre = []" by (simp add: proj_simps parent_setup_proj)
      ultimately have p: "\<exists>pre post.
            tr = pre @ [Close master, Tcsetattr STDIN_FILENO TCSANOW a (e_tcset_restore_ok env)] @ post \<and>
            closes pre = [] \<and> tcsets post = [] \<and> filter is_io post = []"
        using teardown_tail_proj by blast
      from t p console_after_two[OF t] show ?thesis by blast
    qed
    from cl none some show ?thesis by blast
  qed
qed

text \<open>
  The run \<open>env1\<close>, whose capture succeeds; the same session still in its loop; the run
  \<open>env2\<close>, whose capture fails.
\<close>

theorem C3_restore_once_witness:
  "main env1 = (Some (Exit 7), trace1) \<and> closes trace1 = [3] \<and>
   tcsets trace1 = [(STDIN_FILENO, TCSANOW, Raw, True), (STDIN_FILENO, TCSANOW, Cooked, True)] \<and>
   console_after Cooked trace1 = Cooked \<and>
   main env_running = (None, trace_running) \<and> closes trace_running = [] \<and>
   tcsets trace_running = [(STDIN_FILENO, TCSANOW, Raw, True)] \<and>
   main env2 = (Some (Exit 1), trace2) \<and> tcsets trace2 = [] \<and> console_after Cooked trace2 = Cooked"
proof -
  have f1: "e_forkpty env1 = (42, 3)" by (simp add: env1_def)
  have f2: "e_forkpty env2 = (42, 3)" by (simp add: env2_def)
  have f3: "e_forkpty env_running = (42, 3)" by (simp add: env_running_def env1_def)
  have e1: "e_tcgetattr env1 = Some Cooked" "e_cfmakeraw env1 Cooked = Raw" "e_tcset_raw_ok env1"
    "e_tcset_restore_ok env1"
    by (simp_all add: env1_def)
  have e3: "e_tcgetattr env_running = Some Cooked" "e_cfmakeraw env_running Cooked = Raw"
    "e_tcset_raw_ok env_running"
    by (simp_all add: env_running_def env1_def)
  have e2: "e_tcgetattr env2 = None" by (simp add: env2_def)
  have c1: "closes trace1 = [3]" by code_simp
  have c3: "closes trace_running = []" by code_simp
  from C3_restore_once[OF main_env1 f1] e1 c1
  have 1: "tcsets trace1 = [(STDIN_FILENO, TCSANOW, Raw, True), (STDIN_FILENO, TCSANOW, Cooked, True)]"
    "console_after Cooked trace1 = Cooked" by simp_all
  from C3_restore_once[OF main_env2 f2] e2
  have 2: "tcsets trace2 = []" "console_after Cooked trace2 = Cooked" by simp_all
  from C3_restore_once[OF main_env_running f3] e3 c3
  have 3: "tcsets trace_running = [(STDIN_FILENO, TCSANOW, Raw, True)]" by simp
  from main_env1 main_env2 main_env_running c1 c3 1 2 3 show ?thesis by simp
qed

section \<open>Closing the master and reaping the child\<close>

text \<open>
  The drain loop, once left, has forwarded every chunk it read, in order, and has stopped
  at the first read that returned no byte or failed.
\<close>

lemma drain_events:
  fixes e :: "'t event list"
  assumes "drain m rs = (True, e)"
  shows "e = concat (map (\<lambda>r. [Read m r, Write STDOUT_FILENO (rd_bytes r)])
                      (takeWhile (\<lambda>r. rd_n r > 0) rs)) @
             [Read m (hd (dropWhile (\<lambda>r. rd_n r > 0) rs))]"
  using assms
proof (induction rs arbitrary: e)
  case Nil
  then show ?case by simp
next
  case (Cons r rs)
  from Cons.prems show ?case
  proof (cases rule: drain_ConsE)
    case Stop
    then show ?thesis by simp
  next
    case (Fwd e')
    with Cons.IH[OF Fwd(2)] show ?thesis by simp
  qed
qed

text \<open>
  The master is closed at most once in a run of the parent, finished or not, and a run
  that returns has closed it.
\<close>

lemma main_closes:
  fixes tr :: "'t event list"
  assumes "main env = (out, tr)" and "e_forkpty env = (pid, master)" and "pid > 0"
  shows "(closes tr = [] \<or> closes tr = [master]) \<and> (out \<noteq> None \<longrightarrow> closes tr = [master])"
  using assms
proof (cases rule: main_parentE)
  case (Looping e3)
  from relay_loop_proj[OF Looping(1)] Looping(2,3) show ?thesis
    by (simp add: proj_simps parent_setup_proj)
next
  case (Draining s e3 e4)
  from relay_loop_proj[OF Draining(1)] drain_proj[OF Draining(2)] Draining(3,4) show ?thesis
    by (simp add: proj_simps parent_setup_proj)
next
  case (Torn s e3 e4 rc e5)
  from relay_loop_proj[OF Torn(1)] drain_proj[OF Torn(2)] teardown_events(1)[OF Torn(3)] Torn(5)
  show ?thesis
    by (simp add: proj_simps parent_setup_proj teardown_tail_proj split: option.splits)
qed

text \<open>
  When the loop is left, some read of the drain script returns no byte or fails, and the
  blocking wait (if the flag is read as zero in line 159) returns, the run returns. Its
  trace is the setup, the loop, the drain, the close of the master and the rest of the
  teardown; nothing is closed before or after that close, and no \<^verbatim>\<open>poll\<close>, \<^verbatim>\<open>read\<close> or
  \<^verbatim>\<open>write\<close> follows it. The run makes a blocking wait exactly when the flag is read as
  zero in line 159, and then one, for the child's process id; when the flag is read as
  set, a handler invocation has reaped a process. Whether the blocking wait has reaped
  the child, and whether the process a handler invocation has reaped is the child, is
  what the environment answers.
\<close>

lemma main_teardown:
  fixes e3 :: "'t event list"
  assumes "e_forkpty env = (pid, master)" and "pid > 0"
    and lp0: "relay_loop master shared0 (e_loop env) = (Some s, e3)"
    and dr0: "list_ex (\<lambda>r. rd_n r \<le> 0) (e_drain env)"
    and wt: "child_exited (run_handlers (e_sigs_teardown env) s) = 0 \<longrightarrow> e_waitpid env = Some w"
  shows "\<exists>rc tr e4 post.
        main env = (Some (Exit rc), tr) \<and>
        e4 = concat (map (\<lambda>r. [Read master r, Write STDOUT_FILENO (rd_bytes r)])
                       (takeWhile (\<lambda>r. rd_n r > 0) (e_drain env))) @
             [Read master (hd (dropWhile (\<lambda>r. rd_n r > 0) (e_drain env)))] \<and>
        tr = ([Sigaction_SIGCHLD, Forkpty (main_ws (e_getenv env)) pid master] @
              parent_setup env master @ e3 @ e4) @ Close master # post \<and>
        closes ([Sigaction_SIGCHLD, Forkpty (main_ws (e_getenv env)) pid master] @
                parent_setup env master @ e3 @ e4) = [] \<and>
        closes post = [] \<and> filter is_io post = [] \<and>
        filter (\<lambda>(p, opt, w). opt = 0) (waits tr) =
          (if child_exited (run_handlers (e_sigs_teardown env) s) = 0 then [(pid, 0, w)] else []) \<and>
        (child_exited (run_handlers (e_sigs_teardown env) s) \<noteq> 0 \<longrightarrow>
           (\<exists>h. (- 1, WNOHANG, h) \<in> set (waits tr) \<and> w_ret h > 0))"
proof -
  let ?pre0 = "[Sigaction_SIGCHLD, Forkpty (main_ws (e_getenv env)) pid master]"
  let ?s1 = "run_handlers (e_sigs_teardown env) s"
  from drain_total[OF dr0] obtain e4 :: "'t event list" where
    d: "drain master (e_drain env) = (True, e4)" by blast
  note de = drain_events[OF d]
  obtain rc0 and e5 :: "'t event list" where
    t0: "teardown env pid master (e_tcgetattr env) s = (rc0, e5)"
    by (cases "teardown env pid master (e_tcgetattr env) s :: int option \<times> 't event list")
  from teardown_events(2)[OF t0] wt have "rc0 \<noteq> None" by auto
  then obtain rc where rc: "rc0 = Some rc" by auto
  note t = t0[unfolded rc]
  define post where "post =
      (case e_tcgetattr env of
         Some a \<Rightarrow> [Tcsetattr STDIN_FILENO TCSANOW a (e_tcset_restore_ok env)]
       | None \<Rightarrow> []) @ teardown_tail env pid s"
  from teardown_events(1)[OF t] have e5: "e5 = Close master # post" by (simp add: post_def)
  let ?pre = "?pre0 @ parent_setup env master @ e3 @ e4"
  define tr where "tr = ?pre @ Close master # post"
  from main_parentI[OF assms(1,2) lp0 d t] e5
  have m: "main env = (Some (Exit rc), tr)" by (simp add: tr_def)
  have sh: "tr = ?pre @ Close master # post" by (simp add: tr_def)
  note lp = relay_loop_proj[OF lp0]
  note dr = drain_proj[OF d]
  have c1: "closes ?pre = []"
    using lp dr by (simp add: proj_simps parent_setup_proj)
  have c2: "closes post = []" "filter is_io post = []"
    by (simp_all add: post_def proj_simps teardown_tail_proj is_io_def split: option.splits)
  from relay_loop_handlers[OF lp0] obtain ws where
    ws: "s = run_handlers ws shared0" "set ws \<subseteq> set (concat (map it_sigs (e_loop env)))"
      "waits e3 = map (\<lambda>w. (- 1, WNOHANG, w)) ws" by blast
  have wpost: "waits post = waits (teardown_tail env pid s)"
    by (simp add: post_def waits_simps split: option.splits)
  have wtr: "waits tr = waits e3 @ waits (teardown_tail env pid s)"
    unfolding tr_def
    using waits_proj_setup[of "main_ws (e_getenv env)" pid master env] dr wpost
    by (simp add: waits_append waits_Cons wt_of_def)
  have tw: "filter (\<lambda>(p, opt, w). opt = 0) (waits (teardown_tail env pid s)) =
        (if child_exited ?s1 = 0 then [(pid, 0, w)] else [])"
    using wt by (simp add: teardown_tail_def waits_simps blocking_handler_events)
  have b: "filter (\<lambda>(p, opt, w). opt = 0) (waits tr) =
        (if child_exited ?s1 = 0 then [(pid, 0, w)] else [])"
    unfolding wtr using tw ws(3) by (simp add: blocking_handler_events)
  have h: "\<exists>h. (- 1, WNOHANG, h) \<in> set (waits tr) \<and> w_ret h > 0"
    if x: "child_exited ?s1 \<noteq> 0"
  proof -
    have eq: "?s1 = run_handlers (ws @ e_sigs_teardown env) shared0"
      by (simp add: ws(1) run_handlers_append)
    from run_handlers_reap[of "ws @ e_sigs_teardown env" "set (ws @ e_sigs_teardown env)" shared0] x eq
    obtain h where hh: "h \<in> set (ws @ e_sigs_teardown env)" "w_ret h > 0"
      by (auto simp: shared0_def)
    from hh(1) have "(- 1, WNOHANG, h) \<in> set (waits tr)"
      unfolding wtr by (auto simp: ws(3) teardown_tail_def waits_simps)
    with hh(2) show ?thesis by blast
  qed
  from h have h': "child_exited ?s1 \<noteq> 0 \<longrightarrow>
      (\<exists>h. (- 1, WNOHANG, h) \<in> set (waits tr) \<and> w_ret h > 0)" by blast
  show ?thesis
    by (intro exI[of _ rc] exI[of _ tr] exI[of _ e4] exI[of _ post] conjI) (rule m de sh c1 c2 b h')+
qed

text \<open>
  Claim C8. After the loop the remaining output is drained, the master is closed once,
  and a child whose exit the flag does not report is waited for, so that the relay
  returns with no descendant left unreaped. The code misses the last part in the run
  \<open>env_eintr\<close>: line 159 reads the flag as zero, the blocking wait of line 161 is
  interrupted, and its return value is not looked at and the call not repeated; the run
  returns having reaped no process, while the child, process 42, is still there. It
  misses it also in the run \<open>env_orphan\<close>: the handler reaps process 99 and sets the flag,
  line 159 reads it as set, and the run returns having waited for no other process.
\<close>

theorem C8_child_unreaped:
  "e_forkpty env_eintr = (42, 3) \<and>
   main env_eintr = (Some (Exit 0), trace_eintr) \<and>
   closes trace_eintr = [3] \<and>
   writes STDOUT_FILENO trace_eintr = [[0x6f, 0x6b, 0x0d, 0x0a], [0x21]] \<and>
   waits trace_eintr = [(42, 0, \<lparr>w_ret = - 1, w_status = 0\<rparr>),
                        (- 1, WNOHANG, \<lparr>w_ret = 0, w_status = 0\<rparr>)] \<and>
   reaped trace_eintr = [] \<and>
   e_forkpty env_orphan = (42, 3) \<and>
   main env_orphan = (Some (Exit 3), trace_orphan) \<and>
   closes trace_orphan = [3] \<and>
   waits trace_orphan = [(- 1, WNOHANG, \<lparr>w_ret = 99, w_status = 0x0300\<rparr>)] \<and>
   reaped trace_orphan = [99]"
proof -
  have 0: "e_forkpty env_eintr = (42, 3)" "e_forkpty env_orphan = (42, 3)" by code_simp+
  have 1: "main env_eintr = (Some (Exit 0), trace_eintr)" by code_simp
  have 2: "closes trace_eintr = [3]" by code_simp
  have 3: "writes STDOUT_FILENO trace_eintr = [[0x6f, 0x6b, 0x0d, 0x0a], [0x21]]" by code_simp
  have 4: "waits trace_eintr = [(42, 0, \<lparr>w_ret = - 1, w_status = 0\<rparr>),
                                (- 1, WNOHANG, \<lparr>w_ret = 0, w_status = 0\<rparr>)]" by code_simp
  have 5: "reaped trace_eintr = []" by code_simp
  have 6: "main env_orphan = (Some (Exit 3), trace_orphan)" by code_simp
  have 7: "closes trace_orphan = [3]" by code_simp
  have 8: "waits trace_orphan = [(- 1, WNOHANG, \<lparr>w_ret = 99, w_status = 0x0300\<rparr>)]" by code_simp
  have 9: "reaped trace_orphan = [99]" by code_simp
  from 0 1 2 3 4 5 6 7 8 9 show ?thesis by simp
qed

section \<open>The flag and the reap\<close>

text \<open>
  Claim C9. Signal delivery is a sequence of handler invocations before each evaluation
  of the loop condition, the only place where the loop reads the shared pair, whatever
  their number and results. When the loop starts with the flag zero and is left with the
  flag set, the trace holds a non-blocking \<^verbatim>\<open>waitpid(-1)\<close> of a handler that returned a
  process and whose status is the recorded status. A flag that is set stays set, through
  every handler invocation and through the loop. Inside one invocation, assignment by
  assignment, the flag is set only after the reap has succeeded and its status is
  recorded. (The handler's only state is the pair: its type is \<open>shared \<Rightarrow> shared\<close>.)
\<close>

theorem C9_flag_after_reap:
  fixes e :: "'t event list"
  shows
   "(relay_loop m s its = (Some s', e) \<and> child_exited s = 0 \<and> child_exited s' \<noteq> 0 \<longrightarrow>
       (\<exists>h. (- 1, WNOHANG, h) \<in> set (waits e) \<and> w_ret h > 0 \<and> child_status s' = w_status h)) \<and>
    (relay_loop m s its = (Some s', e) \<and> child_exited s \<noteq> 0 \<longrightarrow> child_exited s' \<noteq> 0) \<and>
    (child_exited s \<noteq> 0 \<longrightarrow>
       child_exited (sigchld_handler h s) \<noteq> 0 \<and> child_exited (run_handlers hs s) \<noteq> 0) \<and>
    last (sigchld_handler_steps h s) = sigchld_handler h s \<and>
    (\<forall>x \<in> set (sigchld_handler_steps h s).
       (child_exited s \<noteq> 0 \<longrightarrow> child_exited x \<noteq> 0) \<and>
       (child_exited s = 0 \<and> child_exited x \<noteq> 0 \<longrightarrow> w_ret h > 0 \<and> child_status x = w_status h))"
proof -
  have 1: "\<exists>h. (- 1, WNOHANG, h) \<in> set (waits e) \<and> w_ret h > 0 \<and> child_status s' = w_status h"
    if "relay_loop m s its = (Some s', e)" "child_exited s = 0" "child_exited s' \<noteq> 0"
    using that by (rule relay_loop_reap)
  have 2: "child_exited s' \<noteq> 0" if "relay_loop m s its = (Some s', e)" "child_exited s \<noteq> 0"
    using that by (rule relay_loop_mono)
  have 3: "child_exited (sigchld_handler h s) \<noteq> 0 \<and> child_exited (run_handlers hs s) \<noteq> 0"
    if "child_exited s \<noteq> 0"
    using that run_handlers_mono[of s "[h]"] by (simp add: run_handlers_mono)
  have 4: "last (sigchld_handler_steps h s) = sigchld_handler h s"
    by (simp add: sigchld_handler_steps_def sigchld_handler_def)
  have 5: "\<forall>x \<in> set (sigchld_handler_steps h s).
       (child_exited s \<noteq> 0 \<longrightarrow> child_exited x \<noteq> 0) \<and>
       (child_exited s = 0 \<and> child_exited x \<noteq> 0 \<longrightarrow> w_ret h > 0 \<and> child_status x = w_status h)"
    by (simp add: sigchld_handler_steps_def)
  from 1 2 3 4 5 show ?thesis by blast
qed

text \<open>The loop of the run \<open>env1\<close>: the handler reaps process 42 with status 0x0700.\<close>

theorem C9_flag_after_reap_witness:
  "\<exists>e :: tattr event list.
     relay_loop 3 shared0 (e_loop env1) = (Some \<lparr>child_exited = 1, child_status = 0x0700\<rparr>, e) \<and>
     (\<exists>h. (- 1, WNOHANG, h) \<in> set (waits e) \<and> w_ret h > 0 \<and> w_status h = 0x0700)"
proof -
  let ?s = "\<lparr>child_exited = 1, child_status = 0x0700\<rparr>"
  let ?e = "[Poll \<lparr>p_ret = 1, p_errno = 0, rev_stdin = 1, rev_master = 0\<rparr>,
      Read 0 (Rd [0x6c, 0x73, 0x0a]),
      Write 3 [0x6c, 0x73, 0x0d],
      Poll \<lparr>p_ret = 1, p_errno = 0, rev_stdin = 0, rev_master = 1\<rparr>,
      Read 3 (Rd [0x6f, 0x6b, 0x0d, 0x0a]),
      Write 1 [0x6f, 0x6b, 0x0d, 0x0a],
      Poll \<lparr>p_ret = - 1, p_errno = 4, rev_stdin = 0, rev_master = 0\<rparr>,
      Waitpid (- 1) 1 \<lparr>w_ret = 42, w_status = 0x0700\<rparr>] :: tattr event list"
  have r: "relay_loop 3 shared0 (e_loop env1) = (Some ?s, ?e)" by code_simp
  have z: "child_exited shared0 = 0" by (simp add: shared0_def)
  from C9_flag_after_reap[where m = 3 and s = shared0 and its = "e_loop env1" and s' = ?s and e = ?e] r z
  have "\<exists>h. (- 1, WNOHANG, h) \<in> set (waits ?e) \<and> w_ret h > 0 \<and> child_status ?s = w_status h"
    by simp
  with r show ?thesis by (intro exI[of _ ?e]) simp
qed

end
